theory Spec2Isabelle
  imports Complex_Main "HOL-Library.AList"
begin

section \<open>The revive linter adapter (pkg/golinters/revive.go)\<close>

text \<open>
  A shallow embedding of the configuration pipeline (\<open>getReviveConfig\<close>, \<open>createConfigMap\<close>,
  \<open>safeTomlSlice\<close>, \<open>normalizeConfig\<close>, \<open>defaultConfig\<close>) and of the result pipeline
  (\<open>runRevive\<close>, \<open>reviveToIssue\<close>) of the adapter.

  Conventions of the embedding.
  \<^item> A Go slice is a \<open>list option\<close>: \<open>None\<close> is the nil slice, \<open>Some []\<close> an empty one that
    is not nil. \<open>len\<close> and \<open>range\<close> do not tell them apart, \<open>reflect.DeepEqual\<close> does.
  \<^item> A Go map with string keys is a \<open>(string \<rightharpoonup> 'v) option\<close>: \<open>None\<close> is the nil map.
  \<^item> A \<open>float64\<close> is the real number it denotes (confidences are scores in [0,1]; NaN and
    the infinities are not modelled).
  \<^item> A run-time panic is a value of type \<open>panic\<close>; an \<open>error\<close> is its message.
  \<^item> What the file takes from other packages (the name of each rule, the TOML and JSON
    codecs, the revive engine) is a parameter of the functions that use it.
\<close>

subsection \<open>Go values\<close>

type_synonym 'a slice = "'a list option"

definition elems :: "'a slice \<Rightarrow> 'a list" where
  "elems s = (case s of None \<Rightarrow> [] | Some xs \<Rightarrow> xs)"

definition len :: "'a slice \<Rightarrow> nat" where
  "len s = length (elems s)"

type_synonym 'v gomap = "(string \<rightharpoonup> 'v) option"

definition entries :: "'v gomap \<Rightarrow> (string \<rightharpoonup> 'v)" where
  "entries m = (case m of None \<Rightarrow> Map.empty | Some f \<Rightarrow> f)"

definition maplen_is_0 :: "'v gomap \<Rightarrow> bool" where
  "maplen_is_0 m \<longleftrightarrow> dom (entries m) = {}"

text \<open>
  The dynamic values an \<open>any\<close> of an argument list can hold. A \<open>map[any]any\<close> and a
  \<open>map[string]any\<close> are given by their entries (the keys of a Go map are distinct).
\<close>

datatype any =
    AnyNil
  | AnyBool bool
  | AnyInt int
  | AnyFloat real
  | AnyString string
  | AnySlice "any list"
  | AnyMapAny "(any \<times> any) list"
  | AnyMapString "(string \<times> any) list"

type_synonym error = string

subsection \<open>Settings of the host (config.ReviveSettings)\<close>

record RuleSettings =
  Name :: string
  Arguments :: "any slice"
  Severity :: string
  Disabled :: bool

record DirectiveSettings =
  Name :: string
  Severity :: string

record ReviveSettings =
  MaxOpenFiles :: int
  IgnoreGeneratedHeader :: bool
  Confidence :: real
  Severity :: string
  EnableAllRules :: bool
  Rules :: "RuleSettings slice"
  ErrorCode :: int
  WarningCode :: int
  Directives :: "DirectiveSettings slice"

text \<open>The value \<open>config.ReviveSettings{}\<close>.\<close>

definition zeroSettings :: ReviveSettings where
  "zeroSettings =
     \<lparr>MaxOpenFiles = 0, IgnoreGeneratedHeader = False, Confidence = 0, Severity = [],
      EnableAllRules = False, Rules = None, ErrorCode = 0, WarningCode = 0,
      Directives = None\<rparr>"

subsection \<open>Configuration of the engine (lint.Config)\<close>

record RuleConfig =
  Arguments :: "any slice"
  Severity :: string
  Disabled :: bool

record DirectiveConfig =
  Severity :: string

record lint_Config =
  IgnoreGeneratedHeader :: bool
  Confidence :: real
  Severity :: string
  EnableAllRules :: bool
  Rules :: "RuleConfig gomap"
  ErrorCode :: int
  WarningCode :: int
  Directives :: "DirectiveConfig gomap"

text \<open>The value \<open>lint.RuleConfig{}\<close>.\<close>

definition emptyRuleConfig :: RuleConfig where
  "emptyRuleConfig = \<lparr>RuleConfig.Arguments = None, RuleConfig.Severity = [], RuleConfig.Disabled = False\<rparr>"

definition SeverityWarning :: string where
  "SeverityWarning = ''warning''"

definition defaultConfidence :: real where
  "defaultConfidence = 0.8"

subsection \<open>The rule catalogues\<close>

text \<open>
  A rule of the catalogue is the value \<open>&rule.T{}\<close> of a struct type \<open>T\<close> of revive's
  package \<open>rule\<close>: it is given by the name of that type.
\<close>

datatype rule = Rule string

definition ExportedRule :: rule where
  "ExportedRule = Rule ''ExportedRule''"

definition defaultRules :: "rule list" where
  "defaultRules =
    [Rule ''VarDeclarationsRule'',
     Rule ''PackageCommentsRule'',
     Rule ''DotImportsRule'',
     Rule ''BlankImportsRule'',
     Rule ''ExportedRule'',
     Rule ''VarNamingRule'',
     Rule ''IndentErrorFlowRule'',
     Rule ''RangeRule'',
     Rule ''ErrorfRule'',
     Rule ''ErrorNamingRule'',
     Rule ''ErrorStringsRule'',
     Rule ''ReceiverNamingRule'',
     Rule ''IncrementDecrementRule'',
     Rule ''ErrorReturnRule'',
     Rule ''UnexportedReturnRule'',
     Rule ''TimeNamingRule'',
     Rule ''ContextKeysType'',
     Rule ''ContextAsArgumentRule'',
     Rule ''EmptyBlockRule'',
     Rule ''SuperfluousElseRule'',
     Rule ''UnusedParamRule'',
     Rule ''UnreachableCodeRule'',
     Rule ''RedefinesBuiltinIDRule'']"

definition allRules :: "rule list" where
  "allRules =
    [Rule ''ArgumentsLimitRule'',
     Rule ''CyclomaticRule'',
     Rule ''FileHeaderRule'',
     Rule ''ConfusingNamingRule'',
     Rule ''GetReturnRule'',
     Rule ''ModifiesParamRule'',
     Rule ''ConfusingResultsRule'',
     Rule ''DeepExitRule'',
     Rule ''AddConstantRule'',
     Rule ''FlagParamRule'',
     Rule ''UnnecessaryStmtRule'',
     Rule ''StructTagRule'',
     Rule ''ModifiesValRecRule'',
     Rule ''ConstantLogicalExprRule'',
     Rule ''BoolLiteralRule'',
     Rule ''ImportsBlacklistRule'',
     Rule ''FunctionResultsLimitRule'',
     Rule ''MaxPublicStructsRule'',
     Rule ''RangeValInClosureRule'',
     Rule ''RangeValAddress'',
     Rule ''WaitGroupByValueRule'',
     Rule ''AtomicRule'',
     Rule ''EmptyLinesRule'',
     Rule ''LineLengthLimitRule'',
     Rule ''CallToGCRule'',
     Rule ''DuplicatedImportsRule'',
     Rule ''ImportShadowingRule'',
     Rule ''BareReturnRule'',
     Rule ''UnusedReceiverRule'',
     Rule ''UnhandledErrorRule'',
     Rule ''CognitiveComplexityRule'',
     Rule ''StringOfIntRule'',
     Rule ''StringFormatRule'',
     Rule ''EarlyReturnRule'',
     Rule ''UnconditionalRecursionRule'',
     Rule ''IdenticalBranchesRule'',
     Rule ''DeferRule'',
     Rule ''UnexportedNamingRule'',
     Rule ''FunctionLength'',
     Rule ''NestedStructs'',
     Rule ''UselessBreak'',
     Rule ''UncheckedTypeAssertionRule'',
     Rule ''TimeEqualRule'',
     Rule ''BannedCharsRule'',
     Rule ''OptimizeOperandsOrderRule'',
     Rule ''UseAnyRule'',
     Rule ''DataRaceRule'',
     Rule ''CommentSpacingsRule'',
     Rule ''IfReturnRule'',
     Rule ''RedundantImportAlias'',
     Rule ''ImportAliasNamingRule'',
     Rule ''EnforceMapStyleRule'',
     Rule ''EnforceRepeatedArgTypeStyleRule'',
     Rule ''EnforceSliceStyleRule''] @ defaultRules"

subsection \<open>normalizeConfig and defaultConfig\<close>

text \<open>
  The method \<open>Name()\<close> of a rule lives in revive: the functions below take it as the
  parameter \<open>nm\<close>.

  The loop of \<open>normalizeConfig\<close> over \<open>allRules\<close>: a rule whose name is a key of the map
  is skipped, any other is added with \<open>lint.RuleConfig{}\<close>.
\<close>

fun addMissingRules :: "(rule \<Rightarrow> string) \<Rightarrow> rule list \<Rightarrow> (string \<rightharpoonup> RuleConfig) \<Rightarrow> (string \<rightharpoonup> RuleConfig)" where
  "addMissingRules nm [] m = m"
| "addMissingRules nm (r # rs) m =
     (let ruleName = nm r in
      case m ruleName of
        Some v \<Rightarrow> addMissingRules nm rs m
      | None \<Rightarrow> addMissingRules nm rs (m(ruleName \<mapsto> emptyRuleConfig)))"

text \<open>
  The bodies of the two \<open>range\<close> loops over the rule map and the directive map: an entry
  with an empty severity takes the global one, and is stored back under its key.
\<close>

definition inheritRuleSeverity :: "string \<Rightarrow> RuleConfig \<Rightarrow> RuleConfig" where
  "inheritRuleSeverity severity v =
     (if RuleConfig.Severity v = [] then v\<lparr>RuleConfig.Severity := severity\<rparr> else v)"

definition inheritDirectiveSeverity :: "string \<Rightarrow> DirectiveConfig \<Rightarrow> DirectiveConfig" where
  "inheritDirectiveSeverity severity v =
     (if DirectiveConfig.Severity v = [] then v\<lparr>DirectiveConfig.Severity := severity\<rparr> else v)"

definition rangeStore :: "('v \<Rightarrow> 'v) \<Rightarrow> 'v gomap \<Rightarrow> 'v gomap" where
  "rangeStore f m = map_option (\<lambda>g k. map_option f (g k)) m"

definition normalizeConfig :: "(rule \<Rightarrow> string) \<Rightarrow> lint_Config \<Rightarrow> lint_Config" where
  "normalizeConfig nm cfg =
     (let cfg1 = (if lint_Config.Confidence cfg = 0
                  then cfg\<lparr>lint_Config.Confidence := defaultConfidence\<rparr> else cfg);
          cfg2 = (if lint_Config.Severity cfg1 = []
                  then cfg1\<lparr>lint_Config.Severity := SeverityWarning\<rparr> else cfg1);
          cfg3 = (if maplen_is_0 (lint_Config.Rules cfg2)
                  then cfg2\<lparr>lint_Config.Rules := Some Map.empty\<rparr> else cfg2);
          cfg4 = (if lint_Config.EnableAllRules cfg3
                  then cfg3\<lparr>lint_Config.Rules :=
                         Some (addMissingRules nm allRules (entries (lint_Config.Rules cfg3)))\<rparr>
                  else cfg3);
          severity = lint_Config.Severity cfg4
      in if severity \<noteq> []
         then cfg4\<lparr>lint_Config.Rules :=
                      rangeStore (inheritRuleSeverity severity) (lint_Config.Rules cfg4),
                    lint_Config.Directives :=
                      rangeStore (inheritDirectiveSeverity severity) (lint_Config.Directives cfg4)\<rparr>
         else cfg4)"

fun addDefaultRules :: "(rule \<Rightarrow> string) \<Rightarrow> rule list \<Rightarrow> (string \<rightharpoonup> RuleConfig) \<Rightarrow> (string \<rightharpoonup> RuleConfig)" where
  "addDefaultRules nm [] m = m"
| "addDefaultRules nm (r # rs) m = addDefaultRules nm rs (m(nm r \<mapsto> emptyRuleConfig))"

definition defaultConfig :: "(rule \<Rightarrow> string) \<Rightarrow> lint_Config" where
  "defaultConfig nm =
     \<lparr>lint_Config.IgnoreGeneratedHeader = False,
      lint_Config.Confidence = defaultConfidence,
      lint_Config.Severity = SeverityWarning,
      lint_Config.EnableAllRules = False,
      lint_Config.Rules = Some (addDefaultRules nm defaultRules Map.empty),
      lint_Config.ErrorCode = 0,
      lint_Config.WarningCode = 0,
      lint_Config.Directives = None\<rparr>"

subsection \<open>createConfigMap and safeTomlSlice\<close>

text \<open>
  The two type assertions of \<open>safeTomlSlice\<close> that have no \<open>ok\<close> result panic when they
  fail: \<open>elt.(map[any]any)\<close> and \<open>k.(string)\<close>.
\<close>

datatype panic = InterfaceConversionToMap | InterfaceConversionToString

text \<open>The inner loop: \<open>item[k.(string)] = v\<close> for every entry of the element.\<close>

fun stringKeys :: "(any \<times> any) list \<Rightarrow> (string \<times> any) list \<Rightarrow> panic + (string \<times> any) list" where
  "stringKeys [] item = Inr item"
| "stringKeys ((k, v) # kvs) item =
     (case k of
        AnyString s \<Rightarrow> stringKeys kvs (AList.update s v item)
      | _ \<Rightarrow> Inl InterfaceConversionToString)"

text \<open>The outer loop: every element is asserted to be a \<open>map[any]any\<close> and appended retyped.\<close>

fun typedElems :: "any list \<Rightarrow> any list \<Rightarrow> panic + any list" where
  "typedElems [] typed = Inr typed"
| "typedElems (elt # rest) typed =
     (case elt of
        AnyMapAny kvs \<Rightarrow>
          (case stringKeys kvs [] of
             Inl p \<Rightarrow> Inl p
           | Inr item \<Rightarrow> typedElems rest (typed @ [AnyMapString item]))
      | _ \<Rightarrow> Inl InterfaceConversionToMap)"

definition safeTomlSlice :: "any slice \<Rightarrow> panic + any slice" where
  "safeTomlSlice r =
     (case elems r of
        [] \<Rightarrow> Inr None
      | r0 # _ \<Rightarrow>
          (case r0 of
             AnyMapAny _ \<Rightarrow>
               (case typedElems (elems r) [] of
                  Inl p \<Rightarrow> Inl p
                | Inr typed \<Rightarrow> Inr (Some typed))
           | _ \<Rightarrow> Inr r))"

text \<open>
  The raw tree \<open>map[string]any\<close> that \<open>createConfigMap\<close> builds, one field for each key.
  The keys \<open>directive\<close> and \<open>rule\<close> are set only when their table has an entry: \<open>None\<close>
  is the key left out. The value under \<open>arguments\<close> is the slice \<open>safeTomlSlice\<close> returns.
\<close>

record rawDirective =
  severity :: string

record rawRule =
  severity :: string
  arguments :: "any slice"
  disabled :: bool

record rawRoot =
  ignoreGeneratedHeader :: bool
  confidence :: real
  severity :: string
  errorCode :: int
  warningCode :: int
  enableAllRules :: bool
  directive :: "(string \<rightharpoonup> rawDirective) option"
  rule :: "(string \<rightharpoonup> rawRule) option"

fun rawDirectivesLoop :: "DirectiveSettings list \<Rightarrow> (string \<rightharpoonup> rawDirective) \<Rightarrow> (string \<rightharpoonup> rawDirective)" where
  "rawDirectivesLoop [] rawDirectives = rawDirectives"
| "rawDirectivesLoop (d # ds) rawDirectives =
     rawDirectivesLoop ds
       (rawDirectives(DirectiveSettings.Name d \<mapsto>
          \<lparr>rawDirective.severity = DirectiveSettings.Severity d\<rparr>))"

fun rawRulesLoop :: "RuleSettings list \<Rightarrow> (string \<rightharpoonup> rawRule) \<Rightarrow> panic + (string \<rightharpoonup> rawRule)" where
  "rawRulesLoop [] rawRules = Inr rawRules"
| "rawRulesLoop (s # ss) rawRules =
     (case safeTomlSlice (RuleSettings.Arguments s) of
        Inl p \<Rightarrow> Inl p
      | Inr args \<Rightarrow>
          rawRulesLoop ss
            (rawRules(RuleSettings.Name s \<mapsto>
               \<lparr>rawRule.severity = RuleSettings.Severity s,
                rawRule.arguments = args,
                rawRule.disabled = RuleSettings.Disabled s\<rparr>)))"

definition createConfigMap :: "ReviveSettings \<Rightarrow> panic + rawRoot" where
  "createConfigMap cfg =
     (let rawDirectives = rawDirectivesLoop (elems (ReviveSettings.Directives cfg)) Map.empty in
      case rawRulesLoop (elems (ReviveSettings.Rules cfg)) Map.empty of
        Inl p \<Rightarrow> Inl p
      | Inr rawRules \<Rightarrow>
          Inr \<lparr>rawRoot.ignoreGeneratedHeader = ReviveSettings.IgnoreGeneratedHeader cfg,
               rawRoot.confidence = ReviveSettings.Confidence cfg,
               rawRoot.severity = ReviveSettings.Severity cfg,
               rawRoot.errorCode = ReviveSettings.ErrorCode cfg,
               rawRoot.warningCode = ReviveSettings.WarningCode cfg,
               rawRoot.enableAllRules = ReviveSettings.EnableAllRules cfg,
               rawRoot.directive = (if dom rawDirectives \<noteq> {} then Some rawDirectives else None),
               rawRoot.rule = (if dom rawRules \<noteq> {} then Some rawRules else None)\<rparr>)"

subsection \<open>Failures and issues\<close>

record token_Position =
  Filename :: string
  Offset :: int
  Line :: int
  Column :: int

record FailurePosition =
  Start :: token_Position
  End :: token_Position

text \<open>
  \<open>lint.Failure\<close>, with the fields that its JSON form keeps (\<open>Node\<close> and
  \<open>ReplacementLine\<close> are tagged \<open>json:"-"\<close>).
\<close>

record lint_Failure =
  Failure :: string
  RuleName :: string
  Category :: string
  Position :: FailurePosition
  Confidence :: real

record jsonObject =
  Severity :: string
  Failure :: lint_Failure

record result_Range =
  From :: int
  To :: int

text \<open>\<open>result.Issue\<close>, with the fields \<open>reviveToIssue\<close> sets; the others stay zero.\<close>

record result_Issue =
  Severity :: string
  Text :: string
  Pos :: token_Position
  LineRange :: result_Range
  FromLinter :: string

text \<open>\<open>goanalysis.NewIssue(issue, pass)\<close> pairs the issue with the pass.\<close>

record 'pass goanalysis_Issue =
  Issue :: result_Issue
  Pass :: 'pass

definition reviveName :: string where
  "reviveName = ''revive''"

definition reviveToIssue :: "(rule \<Rightarrow> string) \<Rightarrow> 'pass \<Rightarrow> jsonObject \<Rightarrow> 'pass goanalysis_Issue" where
  "reviveToIssue nm pass object =
     (let failure = jsonObject.Failure object;
          start = FailurePosition.Start (lint_Failure.Position failure);
          lineRangeTo =
            (if lint_Failure.RuleName failure = nm ExportedRule
             then token_Position.Line start
             else token_Position.Line (FailurePosition.End (lint_Failure.Position failure)))
      in \<lparr>Issue =
            \<lparr>result_Issue.Severity = jsonObject.Severity object,
             Text = lint_Failure.RuleName failure @ '': '' @ lint_Failure.Failure failure,
             Pos = \<lparr>Filename = token_Position.Filename start,
                    Offset = token_Position.Offset start,
                    Line = token_Position.Line start,
                    Column = token_Position.Column start\<rparr>,
             LineRange = \<lparr>From = token_Position.Line start, To = lineRangeTo\<rparr>,
             FromLinter = reviveName\<rparr>,
          Pass = pass\<rparr>)"

subsection \<open>The packages the adapter calls\<close>

text \<open>
  The calls that leave this file, as they are used here. \<open>'buf\<close> is the TOML text in the
  buffer, \<open>'out\<close> the JSON text the formatter returns, \<open>'fmt\<close> a formatter, \<open>'rules\<close> the
  resolved rule list.
  \<^item> \<open>getFileNames\<close>: the file names of the pass (in another file of the package).
  \<^item> \<open>tomlEncode\<close>, \<open>tomlDecode\<close>: \<open>toml.NewEncoder(buf).Encode\<close> and
    \<open>toml.NewDecoder(buf).Decode\<close> into an empty \<open>lint.Config\<close>.
  \<^item> \<open>GetFormatter\<close>, \<open>GetLintingRules\<close>: of revive's package \<open>config\<close>.
  \<^item> \<open>Lint\<close>: \<open>lint.New(os.ReadFile, maxOpenFiles).Lint(packages, rules, conf)\<close>. The
    channel it returns is read until it is closed: it is given by the finite list of the
    failures it delivers.
  \<^item> \<open>Format\<close>: the formatter's \<open>Format\<close>, which reads the channel of forwarded failures
    until it is closed and returns the output and an error.
  \<^item> \<open>jsonUnmarshal\<close>: \<open>json.Unmarshal\<close> into a slice of \<open>jsonObject\<close>.
\<close>

record ('pass, 'buf, 'fmt, 'rules, 'out) packages =
  getFileNames :: "'pass \<Rightarrow> string list"
  tomlEncode :: "rawRoot \<Rightarrow> error + 'buf"
  tomlDecode :: "'buf \<Rightarrow> error + lint_Config"
  GetFormatter :: "string \<Rightarrow> error + 'fmt"
  GetLintingRules :: "lint_Config \<Rightarrow> error + 'rules"
  Lint :: "int \<Rightarrow> string list list \<Rightarrow> 'rules \<Rightarrow> lint_Config \<Rightarrow> error + lint_Failure list"
  Format :: "'fmt \<Rightarrow> lint_Failure list \<Rightarrow> lint_Config \<Rightarrow> 'out \<times> error option"
  jsonUnmarshal :: "'out \<Rightarrow> error + jsonObject list"

subsection \<open>getReviveConfig\<close>

text \<open>
  \<open>reflect.DeepEqual(cfg, &config.ReviveSettings{})\<close> is equality with \<open>zeroSettings\<close>.
  The result is a panic of \<open>createConfigMap\<close>, or the returned pair: \<open>Inl err\<close> for
  \<open>(nil, err)\<close> and \<open>Inr conf\<close> for \<open>(conf, nil)\<close>.
\<close>

definition getReviveConfig ::
  "('pass, 'buf, 'fmt, 'rules, 'out) packages \<Rightarrow> (rule \<Rightarrow> string) \<Rightarrow> ReviveSettings
     \<Rightarrow> panic + (error + lint_Config)" where
  "getReviveConfig ext nm cfg =
     (if cfg \<noteq> zeroSettings
      then (case createConfigMap cfg of
              Inl p \<Rightarrow> Inl p
            | Inr rawRoot \<Rightarrow>
                (case tomlEncode ext rawRoot of
                   Inl err \<Rightarrow> Inr (Inl (''failed to encode configuration: '' @ err))
                 | Inr buf \<Rightarrow>
                     (case tomlDecode ext buf of
                        Inl err \<Rightarrow> Inr (Inl (''failed to decode configuration: '' @ err))
                      | Inr conf \<Rightarrow> Inr (Inr (normalizeConfig nm conf)))))
      else Inr (Inr (normalizeConfig nm (defaultConfig nm))))"

subsection \<open>runRevive\<close>

text \<open>The loop that feeds the formatter: a failure below the threshold is skipped.\<close>

fun forwardFailures :: "lint_Config \<Rightarrow> lint_Failure list \<Rightarrow> lint_Failure list" where
  "forwardFailures conf [] = []"
| "forwardFailures conf (f # failures) =
     (if lint_Failure.Confidence f < lint_Config.Confidence conf
      then forwardFailures conf failures
      else f # forwardFailures conf failures)"

text \<open>\<open>append(issues, x)\<close> on a slice that starts nil.\<close>

definition append1 :: "'a slice \<Rightarrow> 'a \<Rightarrow> 'a slice" where
  "append1 s x = Some (elems s @ [x])"

fun convertResults :: "(rule \<Rightarrow> string) \<Rightarrow> 'pass \<Rightarrow> jsonObject list \<Rightarrow> 'pass goanalysis_Issue slice
     \<Rightarrow> 'pass goanalysis_Issue slice" where
  "convertResults nm pass [] issues = issues"
| "convertResults nm pass (object # results) issues =
     convertResults nm pass results (append1 issues (reviveToIssue nm pass object))"

text \<open>
  The formatter runs in a goroutine and reads the forwarded failures from an unbuffered
  channel; \<open>runRevive\<close> closes the channel after the last failure and waits for the goroutine
  before it reads the output. So the formatter is applied to the list of the forwarded
  failures, in their order, and its output is decoded after that.

  The result is a panic, or the returned pair \<open>(issues, err)\<close>. The error of \<open>Format\<close> is
  logged and then overwritten by the one of \<open>json.Unmarshal\<close>; the log is not modelled.
\<close>

definition runRevive ::
  "('pass, 'buf, 'fmt, 'rules, 'out) packages \<Rightarrow> (rule \<Rightarrow> string) \<Rightarrow> 'pass \<Rightarrow> ReviveSettings
     \<Rightarrow> panic + ('pass goanalysis_Issue slice \<times> error option)" where
  "runRevive ext nm pass settings =
     (let packages = [getFileNames ext pass] in
      case getReviveConfig ext nm settings of
        Inl p \<Rightarrow> Inl p
      | Inr (Inl err) \<Rightarrow> Inr (None, Some err)
      | Inr (Inr conf) \<Rightarrow>
          (case GetFormatter ext ''json'' of
             Inl err \<Rightarrow> Inr (None, Some err)
           | Inr formatter \<Rightarrow>
               (case GetLintingRules ext conf of
                  Inl err \<Rightarrow> Inr (None, Some err)
                | Inr lintingRules \<Rightarrow>
                    (case Lint ext (ReviveSettings.MaxOpenFiles settings) packages lintingRules conf of
                       Inl err \<Rightarrow> Inr (None, Some err)
                     | Inr failures \<Rightarrow>
                         (let output = fst (Format ext formatter (forwardFailures conf failures) conf) in
                          case jsonUnmarshal ext output of
                            Inl err \<Rightarrow> Inr (None, Some err)
                          | Inr results \<Rightarrow> Inr (convertResults nm pass results None, None))))))"

subsection \<open>Predicates on argument values\<close>

definition isString :: "any \<Rightarrow> bool" where
  "isString k = (case k of AnyString s \<Rightarrow> True | _ \<Rightarrow> False)"

definition isMapAny :: "any \<Rightarrow> bool" where
  "isMapAny e = (case e of AnyMapAny kvs \<Rightarrow> True | _ \<Rightarrow> False)"

definition isMapString :: "any \<Rightarrow> bool" where
  "isMapString e = (case e of AnyMapString item \<Rightarrow> True | _ \<Rightarrow> False)"

text \<open>A \<open>map[any]any\<close> all of whose keys are strings.\<close>

definition stringKeyedMap :: "any \<Rightarrow> bool" where
  "stringKeyedMap e = (case e of AnyMapAny kvs \<Rightarrow> list_all (\<lambda>kv. isString (fst kv)) kvs | _ \<Rightarrow> False)"

text \<open>
  \<open>retyped e t\<close>: \<open>e\<close> is a \<open>map[any]any\<close> all of whose keys are strings, and \<open>t\<close> is the
  \<open>map[string]any\<close> that holds, under each string, the value \<open>e\<close> holds under that key and
  nothing else (for entries listed with a repeated key, which a Go map does not have, the
  last one counts).
\<close>

definition retyped :: "any \<Rightarrow> any \<Rightarrow> bool" where
  "retyped e t \<longleftrightarrow>
     (\<exists>kvs item. e = AnyMapAny kvs \<and> t = AnyMapString item
        \<and> list_all (\<lambda>kv. isString (fst kv)) kvs
        \<and> distinct (map fst item)
        \<and> (\<forall>s. map_of item s = map_of (rev kvs) (AnyString s)))"

text \<open>The configuration a call of \<open>getReviveConfig\<close> returns, if it returns one.\<close>

definition resolved :: "panic + (error + lint_Config) \<Rightarrow> lint_Config option" where
  "resolved r = (case r of Inr (Inr conf) \<Rightarrow> Some conf | _ \<Rightarrow> None)"

subsection \<open>Stand-ins for the examples\<close>

text \<open>
  The examples below run the functions on concrete inputs, and need concrete values for
  their parameters. \<open>ruleName\<close> gives each rule of the catalogue the name it has in
  revive 1.3.5. \<open>stubPackages\<close> is an engine that reports a given list of failures, with
  codecs that keep the values as they are; its stage \<open>failAt\<close> fails (1 encoding,
  2 decoding, 3 formatter lookup, 4 rule resolution, 5 engine, 6 result decoding).
\<close>

definition ruleNames :: "(string \<times> string) list" where
  "ruleNames =
    [(''VarDeclarationsRule'', ''var-declaration''),
     (''PackageCommentsRule'', ''package-comments''),
     (''DotImportsRule'', ''dot-imports''),
     (''BlankImportsRule'', ''blank-imports''),
     (''ExportedRule'', ''exported''),
     (''VarNamingRule'', ''var-naming''),
     (''IndentErrorFlowRule'', ''indent-error-flow''),
     (''RangeRule'', ''range''),
     (''ErrorfRule'', ''errorf''),
     (''ErrorNamingRule'', ''error-naming''),
     (''ErrorStringsRule'', ''error-strings''),
     (''ReceiverNamingRule'', ''receiver-naming''),
     (''IncrementDecrementRule'', ''increment-decrement''),
     (''ErrorReturnRule'', ''error-return''),
     (''UnexportedReturnRule'', ''unexported-return''),
     (''TimeNamingRule'', ''time-naming''),
     (''ContextKeysType'', ''context-keys-type''),
     (''ContextAsArgumentRule'', ''context-as-argument''),
     (''EmptyBlockRule'', ''empty-block''),
     (''SuperfluousElseRule'', ''superfluous-else''),
     (''UnusedParamRule'', ''unused-parameter''),
     (''UnreachableCodeRule'', ''unreachable-code''),
     (''RedefinesBuiltinIDRule'', ''redefines-builtin-id''),
     (''ArgumentsLimitRule'', ''argument-limit''),
     (''CyclomaticRule'', ''cyclomatic''),
     (''FileHeaderRule'', ''file-header''),
     (''ConfusingNamingRule'', ''confusing-naming''),
     (''GetReturnRule'', ''get-return''),
     (''ModifiesParamRule'', ''modifies-parameter''),
     (''ConfusingResultsRule'', ''confusing-results''),
     (''DeepExitRule'', ''deep-exit''),
     (''AddConstantRule'', ''add-constant''),
     (''FlagParamRule'', ''flag-parameter''),
     (''UnnecessaryStmtRule'', ''unnecessary-stmt''),
     (''StructTagRule'', ''struct-tag''),
     (''ModifiesValRecRule'', ''modifies-value-receiver''),
     (''ConstantLogicalExprRule'', ''constant-logical-expr''),
     (''BoolLiteralRule'', ''bool-literal-in-expr''),
     (''ImportsBlacklistRule'', ''imports-blacklist''),
     (''FunctionResultsLimitRule'', ''function-result-limit''),
     (''MaxPublicStructsRule'', ''max-public-structs''),
     (''RangeValInClosureRule'', ''range-val-in-closure''),
     (''RangeValAddress'', ''range-val-address''),
     (''WaitGroupByValueRule'', ''waitgroup-by-value''),
     (''AtomicRule'', ''atomic''),
     (''EmptyLinesRule'', ''empty-lines''),
     (''LineLengthLimitRule'', ''line-length-limit''),
     (''CallToGCRule'', ''call-to-gc''),
     (''DuplicatedImportsRule'', ''duplicated-imports''),
     (''ImportShadowingRule'', ''import-shadowing''),
     (''BareReturnRule'', ''bare-return''),
     (''UnusedReceiverRule'', ''unused-receiver''),
     (''UnhandledErrorRule'', ''unhandled-error''),
     (''CognitiveComplexityRule'', ''cognitive-complexity''),
     (''StringOfIntRule'', ''string-of-int''),
     (''StringFormatRule'', ''string-format''),
     (''EarlyReturnRule'', ''early-return''),
     (''UnconditionalRecursionRule'', ''unconditional-recursion''),
     (''IdenticalBranchesRule'', ''identical-branches''),
     (''DeferRule'', ''defer''),
     (''UnexportedNamingRule'', ''unexported-naming''),
     (''FunctionLength'', ''function-length''),
     (''NestedStructs'', ''nested-structs''),
     (''UselessBreak'', ''useless-break''),
     (''UncheckedTypeAssertionRule'', ''unchecked-type-assertion''),
     (''TimeEqualRule'', ''time-equal''),
     (''BannedCharsRule'', ''banned-characters''),
     (''OptimizeOperandsOrderRule'', ''optimize-operands-order''),
     (''UseAnyRule'', ''use-any''),
     (''DataRaceRule'', ''datarace''),
     (''CommentSpacingsRule'', ''comment-spacings''),
     (''IfReturnRule'', ''if-return''),
     (''RedundantImportAlias'', ''redundant-import-alias''),
     (''ImportAliasNamingRule'', ''import-alias-naming''),
     (''EnforceMapStyleRule'', ''enforce-map-style''),
     (''EnforceRepeatedArgTypeStyleRule'', ''enforce-repeated-arg-type-style''),
     (''EnforceSliceStyleRule'', ''enforce-slice-style'')]"

fun ruleName :: "rule \<Rightarrow> string" where
  "ruleName (Rule t) = (case map_of ruleNames t of Some n \<Rightarrow> n | None \<Rightarrow> [])"

definition decodeRaw :: "rawRoot \<Rightarrow> lint_Config" where
  "decodeRaw raw =
     \<lparr>lint_Config.IgnoreGeneratedHeader = rawRoot.ignoreGeneratedHeader raw,
      lint_Config.Confidence = rawRoot.confidence raw,
      lint_Config.Severity = rawRoot.severity raw,
      lint_Config.EnableAllRules = rawRoot.enableAllRules raw,
      lint_Config.Rules =
        map_option (\<lambda>m k. map_option (\<lambda>r.
          \<lparr>RuleConfig.Arguments = rawRule.arguments r,
           RuleConfig.Severity = rawRule.severity r,
           RuleConfig.Disabled = rawRule.disabled r\<rparr>) (m k)) (rawRoot.rule raw),
      lint_Config.ErrorCode = rawRoot.errorCode raw,
      lint_Config.WarningCode = rawRoot.warningCode raw,
      lint_Config.Directives =
        map_option (\<lambda>m k. map_option (\<lambda>d.
          \<lparr>DirectiveConfig.Severity = rawDirective.severity d\<rparr>) (m k)) (rawRoot.directive raw)\<rparr>"

definition stubJson :: "lint_Config \<Rightarrow> lint_Failure \<Rightarrow> jsonObject" where
  "stubJson conf f = \<lparr>jsonObject.Severity = lint_Config.Severity conf, jsonObject.Failure = f\<rparr>"

definition stubPackages :: "nat \<Rightarrow> lint_Failure list \<Rightarrow> (unit, rawRoot, unit, unit, jsonObject list) packages" where
  "stubPackages failAt failures =
     \<lparr>getFileNames = (\<lambda>pass. [''a.go'']),
      tomlEncode = (\<lambda>raw. if failAt = 1 then Inl ''cannot encode'' else Inr raw),
      tomlDecode = (\<lambda>buf. if failAt = 2 then Inl ''cannot decode'' else Inr (decodeRaw buf)),
      GetFormatter = (\<lambda>name. if failAt = 3 then Inl ''unknown formatter'' else Inr ()),
      GetLintingRules = (\<lambda>conf. if failAt = 4 then Inl ''cannot find rule'' else Inr ()),
      Lint = (\<lambda>maxOpenFiles packages rules conf. if failAt = 5 then Inl ''cannot lint'' else Inr failures),
      Format = (\<lambda>formatter fs conf. (map (stubJson conf) fs, None)),
      jsonUnmarshal = (\<lambda>out. if failAt = 6 then Inl ''unexpected end of JSON input'' else Inr out)\<rparr>"

text \<open>
  A configuration with \<open>enableAllRules\<close> and one rule of severity \<open>error\<close>, and settings
  with that one rule.
\<close>

definition enableAllConfig :: lint_Config where
  "enableAllConfig =
     \<lparr>lint_Config.IgnoreGeneratedHeader = False,
      lint_Config.Confidence = 0,
      lint_Config.Severity = [],
      lint_Config.EnableAllRules = True,
      lint_Config.Rules = Some (Map.empty(''exported'' \<mapsto>
         \<lparr>RuleConfig.Arguments = None, RuleConfig.Severity = ''error'', RuleConfig.Disabled = False\<rparr>)),
      lint_Config.ErrorCode = 0,
      lint_Config.WarningCode = 0,
      lint_Config.Directives = None\<rparr>"

definition exportedErrorSettings :: ReviveSettings where
  "exportedErrorSettings =
     \<lparr>MaxOpenFiles = 0, IgnoreGeneratedHeader = False, Confidence = 0, Severity = [],
      EnableAllRules = False,
      Rules = Some [\<lparr>RuleSettings.Name = ''exported'', RuleSettings.Arguments = None,
                     RuleSettings.Severity = ''error'', RuleSettings.Disabled = False\<rparr>],
      ErrorCode = 0, WarningCode = 0, Directives = None\<rparr>"

text \<open>The raw tree of \<open>exportedErrorSettings\<close>.\<close>

definition exportedErrorRaw :: rawRoot where
  "exportedErrorRaw =
     \<lparr>ignoreGeneratedHeader = False, confidence = 0, severity = [], errorCode = 0,
      warningCode = 0, enableAllRules = False, directive = None,
      rule = Some (Map.empty(''exported'' \<mapsto>
         \<lparr>rawRule.severity = ''error'', arguments = None, disabled = False\<rparr>))\<rparr>"

text \<open>Two failures of the rule \<open>exported\<close> on lines 10 to 14, of confidence 0.5 and 1.\<close>

definition failureAt :: "real \<Rightarrow> lint_Failure" where
  "failureAt c =
     \<lparr>lint_Failure.Failure = ''exported function Run should have comment or be unexported'',
      RuleName = ''exported'',
      Category = ''comments'',
      Position = \<lparr>Start = \<lparr>Filename = ''a.go'', Offset = 120, Line = 10, Column = 1\<rparr>,
                  End = \<lparr>Filename = ''a.go'', Offset = 240, Line = 14, Column = 2\<rparr>\<rparr>,
      Confidence = c\<rparr>"

text \<open>Settings with one rule, of the given arguments.\<close>

definition withArguments :: "any slice \<Rightarrow> ReviveSettings" where
  "withArguments r =
     \<lparr>MaxOpenFiles = 0, IgnoreGeneratedHeader = False, Confidence = 0, Severity = [],
      EnableAllRules = False,
      Rules = Some [\<lparr>RuleSettings.Name = ''add-constant'', RuleSettings.Arguments = r,
                     RuleSettings.Severity = [], RuleSettings.Disabled = False\<rparr>],
      ErrorCode = 0, WarningCode = 0, Directives = None\<rparr>"

section \<open>Properties\<close>

subsection \<open>The two catalogue loops and the normal form\<close>

lemma addMissingRules_apply:
  "addMissingRules nm rs m k =
     (case m k of Some v \<Rightarrow> Some v
      | None \<Rightarrow> if k \<in> nm ` set rs then Some emptyRuleConfig else None)"
  by (induction rs arbitrary: m) (auto simp: Let_def split: option.splits)

lemma addDefaultRules_apply:
  "addDefaultRules nm rs m k = (if k \<in> nm ` set rs then Some emptyRuleConfig else m k)"
  by (induction rs arbitrary: m) auto

lemma normalizeConfig_fixed:
  assumes "lint_Config.Confidence c \<noteq> 0" "lint_Config.Severity c \<noteq> []"
    and "lint_Config.Rules c = Some m"
    and "lint_Config.EnableAllRules c \<Longrightarrow> \<forall>r\<in>set allRules. m (nm r) \<noteq> None"
    and "\<And>k v. m k = Some v \<Longrightarrow> RuleConfig.Severity v \<noteq> []"
    and "\<And>d k v. lint_Config.Directives c = Some d \<Longrightarrow> d k = Some v \<Longrightarrow> DirectiveConfig.Severity v \<noteq> []"
  shows "normalizeConfig nm c = c"
proof -
  have m0: "dom m = {} \<Longrightarrow> m = Map.empty" by auto
  have add: "lint_Config.EnableAllRules c \<Longrightarrow> addMissingRules nm allRules m = m"
    using assms(4) by (auto simp: addMissingRules_apply fun_eq_iff split: option.splits)
  have rs: "rangeStore (inheritRuleSeverity (lint_Config.Severity c)) (Some m) = Some m"
    using assms(5) by (auto simp: rangeStore_def inheritRuleSeverity_def fun_eq_iff map_option_case split: option.splits)
  have ds: "rangeStore (inheritDirectiveSeverity (lint_Config.Severity c)) (lint_Config.Directives c) = lint_Config.Directives c"
    using assms(6) by (cases "lint_Config.Directives c") (auto simp: rangeStore_def inheritDirectiveSeverity_def fun_eq_iff map_option_case split: option.splits)
  show ?thesis
    using assms(1,2,3) m0 add rs ds
    by (auto simp: normalizeConfig_def Let_def maplen_is_0_def entries_def)
qed

lemma normalizeConfig_Confidence:
  "lint_Config.Confidence (normalizeConfig nm c) =
     (if lint_Config.Confidence c = 0 then defaultConfidence else lint_Config.Confidence c)"
  by (simp add: normalizeConfig_def Let_def)

lemma normalizeConfig_Severity:
  "lint_Config.Severity (normalizeConfig nm c) =
     (if lint_Config.Severity c = [] then SeverityWarning else lint_Config.Severity c)"
  by (simp add: normalizeConfig_def Let_def SeverityWarning_def)

lemma normalizeConfig_EnableAllRules:
  "lint_Config.EnableAllRules (normalizeConfig nm c) = lint_Config.EnableAllRules c"
  by (simp add: normalizeConfig_def Let_def)

lemma normalizeConfig_Directives:
  "lint_Config.Directives (normalizeConfig nm c) =
     rangeStore (inheritDirectiveSeverity (lint_Config.Severity (normalizeConfig nm c))) (lint_Config.Directives c)"
  by (simp add: normalizeConfig_def Let_def SeverityWarning_def)

lemma entries_Some: "entries (Some f) = f"
  by (simp add: entries_def)

lemma entries_None: "entries None = Map.empty"
  by (simp add: entries_def)

lemma entries_step3:
  "entries (if maplen_is_0 R then Some Map.empty else R) = entries R"
proof (cases "maplen_is_0 R")
  case True
  then have "entries R = Map.empty" by (auto simp: maplen_is_0_def)
  then show ?thesis using True by (simp add: entries_def)
next
  case False
  then show ?thesis by simp
qed

lemma step3_Some:
  "(if maplen_is_0 R then Some Map.empty else R) = Some (entries (if maplen_is_0 R then Some Map.empty else R))"
  by (cases R) (auto simp: maplen_is_0_def entries_def)

lemma inheritRuleSeverity_nonempty:
  "s \<noteq> [] \<Longrightarrow> RuleConfig.Severity (inheritRuleSeverity s v) \<noteq> []"
  by (simp add: inheritRuleSeverity_def)

lemma inheritDirectiveSeverity_nonempty:
  "s \<noteq> [] \<Longrightarrow> DirectiveConfig.Severity (inheritDirectiveSeverity s v) \<noteq> []"
  by (simp add: inheritDirectiveSeverity_def)

lemma normalizeConfig_Rules:
  "lint_Config.Rules (normalizeConfig nm c) =
     Some (\<lambda>k. map_option (inheritRuleSeverity (lint_Config.Severity (normalizeConfig nm c)))
        ((if lint_Config.EnableAllRules c
          then addMissingRules nm allRules (entries (lint_Config.Rules c))
          else entries (lint_Config.Rules c)) k))"
proof -
  let ?R = "lint_Config.Rules c"
  let ?R3 = "if maplen_is_0 ?R then Some Map.empty else ?R"
  have R3: "?R3 = Some (entries ?R)"
    using step3_Some [of ?R] by (simp only: entries_step3)
  show ?thesis
  proof (cases "maplen_is_0 ?R")
    case True
    with R3 have e: "entries ?R = Map.empty" by simp
    show ?thesis using True
      by (simp add: normalizeConfig_def Let_def SeverityWarning_def rangeStore_def e entries_Some)
  next
    case False
    with R3 have e: "?R = Some (entries ?R)" by simp
    show ?thesis using False e
      by (cases "lint_Config.Rules c")
         (simp_all add: normalizeConfig_def Let_def SeverityWarning_def rangeStore_def entries_Some)
  qed
qed

text \<open>
  Claim C5. \<open>normalizeConfig\<close> is idempotent: for every configuration, applying it a second
  time gives the configuration the first application gave.
\<close>

theorem normalizeConfig_idempotent:
  "normalizeConfig nm (normalizeConfig nm c) = normalizeConfig nm c"
proof (rule normalizeConfig_fixed)
  show "lint_Config.Confidence (normalizeConfig nm c) \<noteq> 0"
    by (simp add: normalizeConfig_Confidence defaultConfidence_def)
  show sev: "lint_Config.Severity (normalizeConfig nm c) \<noteq> []"
    by (simp add: normalizeConfig_Severity SeverityWarning_def)
  show "lint_Config.Rules (normalizeConfig nm c) = Some (\<lambda>k. map_option (inheritRuleSeverity (lint_Config.Severity (normalizeConfig nm c)))
        ((if lint_Config.EnableAllRules c
          then addMissingRules nm allRules (entries (lint_Config.Rules c))
          else entries (lint_Config.Rules c)) k))"
    by (rule normalizeConfig_Rules)
  show "\<forall>r\<in>set allRules. map_option (inheritRuleSeverity (lint_Config.Severity (normalizeConfig nm c)))
        ((if lint_Config.EnableAllRules c
          then addMissingRules nm allRules (entries (lint_Config.Rules c))
          else entries (lint_Config.Rules c)) (nm r)) \<noteq> None"
    if "lint_Config.EnableAllRules (normalizeConfig nm c)"
    using that by (auto simp: normalizeConfig_EnableAllRules addMissingRules_apply split: option.splits)
  show "RuleConfig.Severity v \<noteq> []"
    if "map_option (inheritRuleSeverity (lint_Config.Severity (normalizeConfig nm c)))
        ((if lint_Config.EnableAllRules c
          then addMissingRules nm allRules (entries (lint_Config.Rules c))
          else entries (lint_Config.Rules c)) k) = Some v" for k v
    using that sev by (auto simp: inheritRuleSeverity_nonempty split: if_splits)
  show "DirectiveConfig.Severity v \<noteq> []"
    if "lint_Config.Directives (normalizeConfig nm c) = Some d" "d k = Some v" for d k v
    using that sev unfolding normalizeConfig_Directives
    by (cases "lint_Config.Directives c") (auto simp: rangeStore_def inheritDirectiveSeverity_nonempty split: if_splits)
qed

lemma defaultConfig_normal:
  "normalizeConfig nm (defaultConfig nm) =
     \<lparr>lint_Config.IgnoreGeneratedHeader = False,
      lint_Config.Confidence = 0.8,
      lint_Config.Severity = ''warning'',
      lint_Config.EnableAllRules = False,
      lint_Config.Rules = Some (\<lambda>k. if k \<in> nm ` set defaultRules
         then Some \<lparr>RuleConfig.Arguments = None, RuleConfig.Severity = ''warning'', RuleConfig.Disabled = False\<rparr>
         else None),
      lint_Config.ErrorCode = 0,
      lint_Config.WarningCode = 0,
      lint_Config.Directives = None\<rparr>"
proof -
  have R: "lint_Config.Rules (normalizeConfig nm (defaultConfig nm)) =
     Some (\<lambda>k. if k \<in> nm ` set defaultRules
         then Some \<lparr>RuleConfig.Arguments = None, RuleConfig.Severity = ''warning'', RuleConfig.Disabled = False\<rparr>
         else None)"
    unfolding normalizeConfig_Rules normalizeConfig_Severity
    by (auto simp: defaultConfig_def entries_Some addDefaultRules_apply SeverityWarning_def
        inheritRuleSeverity_def emptyRuleConfig_def fun_eq_iff)
  have D: "lint_Config.Directives (normalizeConfig nm (defaultConfig nm)) = None"
    unfolding normalizeConfig_Directives by (simp add: defaultConfig_def rangeStore_def)
  have C: "lint_Config.Confidence (normalizeConfig nm (defaultConfig nm)) = 0.8"
    by (simp add: normalizeConfig_Confidence defaultConfig_def defaultConfidence_def)
  have S: "lint_Config.Severity (normalizeConfig nm (defaultConfig nm)) = ''warning''"
    by (simp add: normalizeConfig_Severity defaultConfig_def SeverityWarning_def)
  have E: "lint_Config.EnableAllRules (normalizeConfig nm (defaultConfig nm)) = False"
    by (simp add: normalizeConfig_EnableAllRules defaultConfig_def)
  have O: "lint_Config.IgnoreGeneratedHeader (normalizeConfig nm (defaultConfig nm)) = False"
    "lint_Config.ErrorCode (normalizeConfig nm (defaultConfig nm)) = 0"
    "lint_Config.WarningCode (normalizeConfig nm (defaultConfig nm)) = 0"
    by (simp_all add: normalizeConfig_def Let_def defaultConfig_def)
  show ?thesis
    by (rule lint_Config.equality) (simp_all add: R D C S E O)
qed

lemma normalizeConfig_keeps_severity:
  assumes "entries (lint_Config.Rules c) n = Some rc" "RuleConfig.Severity rc \<noteq> []"
  shows "entries (lint_Config.Rules (normalizeConfig nm c)) n = Some rc"
  using assms
  by (simp add: normalizeConfig_Rules entries_Some addMissingRules_apply inheritRuleSeverity_def)

lemma normalizeConfig_dom:
  "dom (entries (lint_Config.Rules (normalizeConfig nm c))) =
     (if lint_Config.EnableAllRules c then dom (entries (lint_Config.Rules c)) \<union> nm ` set allRules
      else dom (entries (lint_Config.Rules c)))"
  by (auto simp: normalizeConfig_Rules entries_Some addMissingRules_apply dom_def split: option.splits if_splits)

lemma defaultRules_subset: "set defaultRules \<subseteq> set allRules"
  unfolding allRules_def set_append by (rule Un_upper2)

lemma ExportedRule_default: "ExportedRule \<in> set defaultRules"
  by (simp add: defaultRules_def ExportedRule_def)

lemma ruleName_ExportedRule: "ruleName ExportedRule = ''exported''"
  by (simp add: ExportedRule_def ruleNames_def)

subsection \<open>The resolved configuration\<close>

text \<open>
  Claim C1. For the all-zero settings, \<open>getReviveConfig\<close> returns the normalized default
  configuration: its confidence is 0.8, its severity is \<open>warning\<close>, and the keys of its rule
  map are exactly the names of the rules of \<open>defaultRules\<close>, each with an entry of severity
  \<open>warning\<close> (no arguments, not disabled).
\<close>

theorem getReviveConfig_zeroSettings:
  "getReviveConfig ext nm zeroSettings = Inr (Inr (normalizeConfig nm (defaultConfig nm)))
   \<and> lint_Config.Confidence (normalizeConfig nm (defaultConfig nm)) = 0.8
   \<and> lint_Config.Severity (normalizeConfig nm (defaultConfig nm)) = ''warning''
   \<and> dom (entries (lint_Config.Rules (normalizeConfig nm (defaultConfig nm)))) = nm ` set defaultRules
   \<and> lint_Config.Rules (normalizeConfig nm (defaultConfig nm)) =
       Some (\<lambda>k. if k \<in> nm ` set defaultRules
         then Some \<lparr>RuleConfig.Arguments = None, RuleConfig.Severity = ''warning'', RuleConfig.Disabled = False\<rparr>
         else None)"
  by (auto simp: getReviveConfig_def defaultConfig_normal entries_Some split: if_splits)

text \<open>
  Claim C2. With \<open>enableAllRules\<close> set and one configured rule \<open>n\<close> of a severity that is not
  empty, the normalized rule map has an entry for the name of every rule of \<open>allRules\<close>, the
  entry of \<open>n\<close> is the configured one, and every other entry has the global severity of the
  normalized configuration.
\<close>

theorem normalizeConfig_enable_all:
  assumes "lint_Config.EnableAllRules c"
    and "lint_Config.Rules c = Some (Map.empty(n \<mapsto> rc))"
    and "RuleConfig.Severity rc \<noteq> []"
  shows "\<exists>m. lint_Config.Rules (normalizeConfig nm c) = Some m
           \<and> (\<forall>r\<in>set allRules. nm r \<in> dom m)
           \<and> m n = Some rc
           \<and> (\<forall>k v. k \<noteq> n \<longrightarrow> m k = Some v \<longrightarrow>
                 RuleConfig.Severity v = lint_Config.Severity (normalizeConfig nm c))"
proof -
  let ?m = "entries (lint_Config.Rules (normalizeConfig nm c))"
  have 1: "lint_Config.Rules (normalizeConfig nm c) = Some ?m"
    by (simp add: normalizeConfig_Rules entries_Some)
  have 2: "\<forall>r\<in>set allRules. nm r \<in> dom ?m"
    using assms(1) by (simp add: normalizeConfig_dom)
  have 3: "?m n = Some rc"
    using assms(2,3) by (intro normalizeConfig_keeps_severity) (simp_all add: entries_Some)
  have 4: "RuleConfig.Severity v = lint_Config.Severity (normalizeConfig nm c)"
    if "k \<noteq> n" "?m k = Some v" for k v
    using that assms(1,2)
    by (auto simp: normalizeConfig_Rules entries_Some addMissingRules_apply inheritRuleSeverity_def
        emptyRuleConfig_def split: if_splits option.splits)
  show ?thesis using 1 2 3 4 by blast
qed

theorem normalizeConfig_enable_all_witness:
  "lint_Config.EnableAllRules enableAllConfig
   \<and> lint_Config.Rules enableAllConfig = Some (Map.empty(''exported'' \<mapsto>
         \<lparr>RuleConfig.Arguments = None, RuleConfig.Severity = ''error'', RuleConfig.Disabled = False\<rparr>))
   \<and> (\<exists>m. lint_Config.Rules (normalizeConfig ruleName enableAllConfig) = Some m
           \<and> (\<forall>r\<in>set allRules. ruleName r \<in> dom m)
           \<and> m ''exported'' = Some \<lparr>RuleConfig.Arguments = None, RuleConfig.Severity = ''error'', RuleConfig.Disabled = False\<rparr>
           \<and> (\<forall>k v. k \<noteq> ''exported'' \<longrightarrow> m k = Some v \<longrightarrow>
                 RuleConfig.Severity v = lint_Config.Severity (normalizeConfig ruleName enableAllConfig)))"
  using normalizeConfig_enable_all [of enableAllConfig "''exported''"
      "\<lparr>RuleConfig.Arguments = None, RuleConfig.Severity = ''error'', RuleConfig.Disabled = False\<rparr>" ruleName]
  by (simp add: enableAllConfig_def)

text \<open>
  Claim C10. Every rule of \<open>defaultRules\<close> is a rule of \<open>allRules\<close>; so with \<open>enableAllRules\<close>
  set the normalized rule map has an entry for the name of every rule of \<open>allRules\<close>, and with
  them for every rule of \<open>defaultRules\<close>.
\<close>

theorem defaultRules_in_allRules:
  "set defaultRules \<subseteq> set allRules
   \<and> (lint_Config.EnableAllRules c \<longrightarrow>
        (\<forall>r\<in>set allRules. nm r \<in> dom (entries (lint_Config.Rules (normalizeConfig nm c))))
      \<and> (\<forall>r\<in>set defaultRules. nm r \<in> dom (entries (lint_Config.Rules (normalizeConfig nm c)))))"
  using defaultRules_subset by (auto simp: normalizeConfig_dom)

theorem defaultRules_in_allRules_witness:
  "lint_Config.EnableAllRules enableAllConfig
   \<and> set defaultRules \<subseteq> set allRules
   \<and> ''cyclomatic'' \<in> dom (entries (lint_Config.Rules (normalizeConfig ruleName enableAllConfig)))
   \<and> ''var-naming'' \<in> dom (entries (lint_Config.Rules (normalizeConfig ruleName enableAllConfig)))"
proof -
  have e: "lint_Config.EnableAllRules enableAllConfig"
    by (simp add: enableAllConfig_def)
  have a: "Rule ''CyclomaticRule'' \<in> set allRules"
    by (simp add: allRules_def)
  have d: "Rule ''VarNamingRule'' \<in> set defaultRules"
    by (simp add: defaultRules_def)
  have n: "ruleName (Rule ''CyclomaticRule'') = ''cyclomatic''"
    "ruleName (Rule ''VarNamingRule'') = ''var-naming''"
    by (simp_all add: ruleNames_def)
  from defaultRules_in_allRules [of enableAllConfig ruleName] e
  have s: "set defaultRules \<subseteq> set allRules"
    and A: "\<forall>r\<in>set allRules. ruleName r \<in> dom (entries (lint_Config.Rules (normalizeConfig ruleName enableAllConfig)))"
    and D: "\<forall>r\<in>set defaultRules. ruleName r \<in> dom (entries (lint_Config.Rules (normalizeConfig ruleName enableAllConfig)))"
    by blast+
  from A a n(1) have "''cyclomatic'' \<in> dom (entries (lint_Config.Rules (normalizeConfig ruleName enableAllConfig)))"
    by metis
  moreover from D d n(2) have "''var-naming'' \<in> dom (entries (lint_Config.Rules (normalizeConfig ruleName enableAllConfig)))"
    by metis
  ultimately show ?thesis using e s by blast
qed

lemma elems_None: "elems None = []"
  by (simp add: elems_def)

lemma elems_Some: "elems (Some xs) = xs"
  by (simp add: elems_def)

lemma safeTomlSlice_nil: "safeTomlSlice None = Inr None"
  by (simp add: safeTomlSlice_def elems_None)

lemma createConfigMap_exportedErrorSettings:
  "createConfigMap exportedErrorSettings = Inr exportedErrorRaw"
  by (simp add: createConfigMap_def exportedErrorSettings_def exportedErrorRaw_def elems_Some
      elems_None safeTomlSlice_nil)

lemma exportedErrorSettings_not_zero: "exportedErrorSettings \<noteq> zeroSettings"
  by (simp add: exportedErrorSettings_def zeroSettings_def)

lemma getReviveConfig_exportedErrorSettings:
  "getReviveConfig (stubPackages 0 fs) ruleName exportedErrorSettings =
     Inr (Inr (normalizeConfig ruleName (decodeRaw exportedErrorRaw)))"
  by (simp add: getReviveConfig_def exportedErrorSettings_not_zero
      createConfigMap_exportedErrorSettings stubPackages_def)

lemma decodeRaw_exportedErrorRaw_dom:
  "dom (entries (lint_Config.Rules (decodeRaw exportedErrorRaw))) = {''exported''}"
  by (auto simp: decodeRaw_def exportedErrorRaw_def entries_Some dom_def split: if_splits)

lemma rawRulesLoop_dom:
  "rawRulesLoop ss m = Inr m' \<Longrightarrow> dom m' = dom m \<union> RuleSettings.Name ` set ss"
proof (induction ss arbitrary: m)
  case Nil
  then show ?case by simp
next
  case (Cons a ss)
  from Cons.prems obtain args where
    a: "safeTomlSlice (RuleSettings.Arguments a) = Inr args"
    by (cases "safeTomlSlice (RuleSettings.Arguments a)") simp_all
  let ?m1 = "m(RuleSettings.Name a \<mapsto>
               \<lparr>rawRule.severity = RuleSettings.Severity a, rawRule.arguments = args,
                rawRule.disabled = RuleSettings.Disabled a\<rparr>)"
  from Cons.prems a have "rawRulesLoop ss ?m1 = Inr m'" by simp
  from Cons.IH [OF this] have "dom m' = dom ?m1 \<union> RuleSettings.Name ` set ss" .
  then show ?case by auto
qed

lemma createConfigMap_rule_keys:
  assumes "createConfigMap cfg = Inr raw"
  shows "dom (entries (rawRoot.rule raw)) = RuleSettings.Name ` set (elems (ReviveSettings.Rules cfg))"
    and "rawRoot.enableAllRules raw = ReviveSettings.EnableAllRules cfg"
proof -
  from assms obtain tbl where
    l: "rawRulesLoop (elems (ReviveSettings.Rules cfg)) Map.empty = Inr tbl"
    and r: "rawRoot.rule raw = (if dom tbl \<noteq> {} then Some tbl else None)"
    and e: "rawRoot.enableAllRules raw = ReviveSettings.EnableAllRules cfg"
    by (auto simp: createConfigMap_def Let_def split: sum.splits)
  from rawRulesLoop_dom [OF l]
  have d: "dom tbl = RuleSettings.Name ` set (elems (ReviveSettings.Rules cfg))" by simp
  have "dom (entries (rawRoot.rule raw)) = dom tbl"
    unfolding r by (simp add: entries_Some entries_None)
  with d show "dom (entries (rawRoot.rule raw)) = RuleSettings.Name ` set (elems (ReviveSettings.Rules cfg))"
    by simp
  from e show "rawRoot.enableAllRules raw = ReviveSettings.EnableAllRules cfg" .
qed

lemma decodeRaw_keeps:
  "lint_Config.EnableAllRules (decodeRaw raw) = rawRoot.enableAllRules raw"
  "dom (entries (lint_Config.Rules (decodeRaw raw))) = dom (entries (rawRoot.rule raw))"
  by (cases "rawRoot.rule raw"; auto simp: decodeRaw_def entries_Some entries_None dom_def)+

text \<open>
  Claim C9, as the code has it. The TOML codec is not of this file: the statement is for a
  codec that gives back the \<open>enableAllRules\<close> flag and the keys of the rule table of the raw
  tree it was given. Then the configuration \<open>getReviveConfig\<close> returns has the
  \<open>enableAllRules\<close> flag of the settings. With the flag set, its rule map has a key for the
  name of every rule of \<open>defaultRules\<close>. Otherwise its keys are exactly the names of the rules
  of the settings when the settings are not all-zero, and exactly the names of the rules of
  \<open>defaultRules\<close>, which \<open>defaultConfig\<close> fills in, when they are.
\<close>

theorem getReviveConfig_rule_keys:
  assumes "getReviveConfig ext nm settings = Inr (Inr conf)"
    and codec: "\<And>raw buf conf0.
        createConfigMap settings = Inr raw \<Longrightarrow> tomlEncode ext raw = Inr buf \<Longrightarrow>
        tomlDecode ext buf = Inr conf0 \<Longrightarrow>
          lint_Config.EnableAllRules conf0 = rawRoot.enableAllRules raw
          \<and> dom (entries (lint_Config.Rules conf0)) = dom (entries (rawRoot.rule raw))"
  shows "lint_Config.EnableAllRules conf = ReviveSettings.EnableAllRules settings
       \<and> (lint_Config.EnableAllRules conf \<longrightarrow>
            nm ` set defaultRules \<subseteq> dom (entries (lint_Config.Rules conf)))
       \<and> (\<not> lint_Config.EnableAllRules conf \<longrightarrow>
            dom (entries (lint_Config.Rules conf)) =
              (if settings = zeroSettings
               then nm ` set defaultRules
               else RuleSettings.Name ` set (elems (ReviveSettings.Rules settings))))"
proof (cases "settings = zeroSettings")
  case True
  with assms(1) have "conf = normalizeConfig nm (defaultConfig nm)"
    by (simp add: getReviveConfig_def)
  then show ?thesis using True
    by (simp add: defaultConfig_normal entries_Some dom_def zeroSettings_def)
next
  case False
  with assms(1) obtain raw buf conf0 where
    *: "createConfigMap settings = Inr raw" "tomlEncode ext raw = Inr buf"
       "tomlDecode ext buf = Inr conf0" "conf = normalizeConfig nm conf0"
    by (auto simp: getReviveConfig_def split: sum.splits)
  from codec [OF *(1-3)] createConfigMap_rule_keys [OF *(1)]
  have e: "lint_Config.EnableAllRules conf0 = ReviveSettings.EnableAllRules settings"
    and k: "dom (entries (lint_Config.Rules conf0)) =
              RuleSettings.Name ` set (elems (ReviveSettings.Rules settings))"
    by simp_all
  have "nm ` set defaultRules \<subseteq> nm ` set allRules"
    using defaultRules_subset by blast
  then show ?thesis using False *(4) e k
    by (auto simp: normalizeConfig_dom normalizeConfig_EnableAllRules)
qed

theorem getReviveConfig_rule_keys_witness:
  "getReviveConfig (stubPackages 0 []) ruleName exportedErrorSettings =
     Inr (Inr (normalizeConfig ruleName (decodeRaw exportedErrorRaw)))
   \<and> \<not> ReviveSettings.EnableAllRules exportedErrorSettings
   \<and> \<not> lint_Config.EnableAllRules (normalizeConfig ruleName (decodeRaw exportedErrorRaw))
   \<and> dom (entries (lint_Config.Rules (normalizeConfig ruleName (decodeRaw exportedErrorRaw)))) = {''exported''}"
proof -
  let ?conf = "normalizeConfig ruleName (decodeRaw exportedErrorRaw)"
  let ?ext = "stubPackages 0 [] :: (unit, rawRoot, unit, unit, jsonObject list) packages"
  have g: "getReviveConfig ?ext ruleName exportedErrorSettings = Inr (Inr ?conf)"
    by (rule getReviveConfig_exportedErrorSettings)
  have c: "lint_Config.EnableAllRules conf0 = rawRoot.enableAllRules raw
          \<and> dom (entries (lint_Config.Rules conf0)) = dom (entries (rawRoot.rule raw))"
    if "createConfigMap exportedErrorSettings = Inr raw" "tomlEncode ?ext raw = Inr buf"
       "tomlDecode ?ext buf = Inr conf0" for raw buf conf0
  proof -
    from that(2,3) have "conf0 = decodeRaw raw"
      by (simp add: stubPackages_def)
    then show ?thesis by (simp add: decodeRaw_keeps)
  qed
  have s: "\<not> ReviveSettings.EnableAllRules exportedErrorSettings"
    "exportedErrorSettings \<noteq> zeroSettings"
    "RuleSettings.Name ` set (elems (ReviveSettings.Rules exportedErrorSettings)) = {''exported''}"
    by (simp_all add: exportedErrorSettings_not_zero) (simp_all add: exportedErrorSettings_def elems_Some)
  from getReviveConfig_rule_keys [OF g c] s
  have "\<not> lint_Config.EnableAllRules ?conf"
    and "dom (entries (lint_Config.Rules ?conf)) = {''exported''}"
    by simp_all
  with g s(1) show ?thesis by (intro conjI)
qed

text \<open>
  The claim as the specification states it fails for the all-zero settings: no rule is
  configured and \<open>enableAllRules\<close> is not set, and the rule map has an entry for \<open>exported\<close>.
\<close>

theorem explicit_rules_only_counterexample:
  "ReviveSettings.Rules zeroSettings = None
   \<and> map_option lint_Config.EnableAllRules
        (resolved (getReviveConfig (stubPackages 0 []) ruleName zeroSettings)) = Some False
   \<and> entries (lint_Config.Rules (the (resolved (getReviveConfig (stubPackages 0 []) ruleName zeroSettings))))
        ''exported''
      = Some \<lparr>RuleConfig.Arguments = None, RuleConfig.Severity = ''warning'', RuleConfig.Disabled = False\<rparr>"
proof -
  have "''exported'' \<in> ruleName ` set defaultRules"
    using ExportedRule_default ruleName_ExportedRule by (metis imageI)
  then show ?thesis
    by (simp add: getReviveConfig_def resolved_def defaultConfig_normal entries_Some zeroSettings_def)
qed

subsection \<open>Issues\<close>

text \<open>
  Claim C4. The line range of the issue \<open>reviveToIssue\<close> builds goes from the start line to the
  start line when the rule name of the failure is the name of \<open>ExportedRule\<close>, and from the
  start line to the end line for every other rule name; its text is the rule name, a colon and
  a space, and the message of the failure; its position is the start position of the failure.
\<close>

theorem reviveToIssue_shape:
  "result_Issue.LineRange (Issue (reviveToIssue nm pass object)) =
     (if lint_Failure.RuleName (jsonObject.Failure object) = nm ExportedRule
      then \<lparr>From = token_Position.Line (FailurePosition.Start (lint_Failure.Position (jsonObject.Failure object))),
            To = token_Position.Line (FailurePosition.Start (lint_Failure.Position (jsonObject.Failure object)))\<rparr>
      else \<lparr>From = token_Position.Line (FailurePosition.Start (lint_Failure.Position (jsonObject.Failure object))),
            To = token_Position.Line (FailurePosition.End (lint_Failure.Position (jsonObject.Failure object)))\<rparr>)
   \<and> result_Issue.Text (Issue (reviveToIssue nm pass object)) =
       lint_Failure.RuleName (jsonObject.Failure object) @ '': '' @ lint_Failure.Failure (jsonObject.Failure object)
   \<and> result_Issue.Pos (Issue (reviveToIssue nm pass object)) =
       FailurePosition.Start (lint_Failure.Position (jsonObject.Failure object))"
  by (simp add: reviveToIssue_def Let_def)

text \<open>
  The example of the specification: a failure on lines 10 to 14 gives the range 10 to 10 for
  the rule \<open>exported\<close> and the range 10 to 14 for another rule.
\<close>

lemma reviveToIssue_example:
  "result_Issue.LineRange (Issue (reviveToIssue ruleName () (stubJson c (failureAt 1))))
     = \<lparr>From = 10, To = 10\<rparr>
   \<and> result_Issue.LineRange (Issue (reviveToIssue ruleName ()
         (stubJson c ((failureAt 1)\<lparr>RuleName := ''var-naming''\<rparr>))))
     = \<lparr>From = 10, To = 14\<rparr>"
  by (simp add: reviveToIssue_def stubJson_def failureAt_def ruleName_ExportedRule)

subsection \<open>runRevive\<close>

lemma forwardFailures_filter:
  "forwardFailures conf failures =
     filter (\<lambda>f. lint_Config.Confidence conf \<le> lint_Failure.Confidence f) failures"
  by (induction failures) (auto simp: not_less)

lemma convertResults_elems:
  "elems (convertResults nm pass results issues) = elems issues @ map (reviveToIssue nm pass) results"
  by (induction results arbitrary: issues) (simp_all add: append1_def elems_Some)

text \<open>
  Claim C3. In a run whose stages succeed, the failures forwarded to the formatter are those of
  the engine whose confidence is not below the threshold of the configuration, in their order:
  a failure below the threshold is not forwarded, a failure at or above it is. When decoding
  the formatter's output gives back one object \<open>toJson f\<close> for each forwarded failure \<open>f\<close>, the
  issues returned are the issues of the forwarded failures, one for each, and no other.
\<close>

theorem runRevive_confidence_filter:
  assumes "getReviveConfig ext nm settings = Inr (Inr conf)"
    and "GetFormatter ext ''json'' = Inr formatter"
    and "GetLintingRules ext conf = Inr lintingRules"
    and "Lint ext (ReviveSettings.MaxOpenFiles settings) [getFileNames ext pass] lintingRules conf = Inr failures"
    and "jsonUnmarshal ext (fst (Format ext formatter (forwardFailures conf failures) conf))
           = Inr (map toJson (forwardFailures conf failures))"
  shows "\<exists>issues. runRevive ext nm pass settings = Inr (issues, None)
           \<and> elems issues = map (reviveToIssue nm pass \<circ> toJson) (forwardFailures conf failures)
           \<and> (\<forall>f\<in>set failures.
                 (lint_Failure.Confidence f < lint_Config.Confidence conf
                    \<longrightarrow> f \<notin> set (forwardFailures conf failures))
               \<and> (lint_Config.Confidence conf \<le> lint_Failure.Confidence f
                    \<longrightarrow> f \<in> set (forwardFailures conf failures)
                      \<and> reviveToIssue nm pass (toJson f) \<in> set (elems issues)))
           \<and> length (elems issues) =
               length (filter (\<lambda>f. lint_Config.Confidence conf \<le> lint_Failure.Confidence f) failures)"
proof -
  let ?issues = "convertResults nm pass (map toJson (forwardFailures conf failures)) None"
  have run: "runRevive ext nm pass settings = Inr (?issues, None)"
    using assms by (simp add: runRevive_def Let_def)
  have el: "elems ?issues = map (reviveToIssue nm pass \<circ> toJson) (forwardFailures conf failures)"
    by (simp add: convertResults_elems elems_None)
  have mem: "\<forall>f\<in>set failures.
                 (lint_Failure.Confidence f < lint_Config.Confidence conf
                    \<longrightarrow> f \<notin> set (forwardFailures conf failures))
               \<and> (lint_Config.Confidence conf \<le> lint_Failure.Confidence f
                    \<longrightarrow> f \<in> set (forwardFailures conf failures)
                      \<and> reviveToIssue nm pass (toJson f) \<in> set (elems ?issues))"
    unfolding el by (auto simp: forwardFailures_filter)
  have len: "length (elems ?issues) =
               length (filter (\<lambda>f. lint_Config.Confidence conf \<le> lint_Failure.Confidence f) failures)"
    unfolding el by (simp add: forwardFailures_filter)
  show ?thesis using run el mem len by blast
qed

lemma getReviveConfig_zero: "getReviveConfig ext nm zeroSettings = Inr (Inr (normalizeConfig nm (defaultConfig nm)))"
  by (simp add: getReviveConfig_def)

lemma defaultConfig_Confidence: "lint_Config.Confidence (normalizeConfig nm (defaultConfig nm)) = 0.8"
  by (simp add: defaultConfig_normal)

lemma defaultConfig_Severity: "lint_Config.Severity (normalizeConfig nm (defaultConfig nm)) = ''warning''"
  by (simp add: defaultConfig_normal)

theorem runRevive_confidence_filter_witness:
  "forwardFailures (normalizeConfig ruleName (defaultConfig ruleName)) [failureAt 0.5, failureAt 1, failureAt 0.8]
     = [failureAt 1, failureAt 0.8]
   \<and> (\<exists>issues. runRevive (stubPackages 0 [failureAt 0.5, failureAt 1, failureAt 0.8]) ruleName () zeroSettings
          = Inr (issues, None)
        \<and> elems issues =
            [reviveToIssue ruleName () (stubJson (normalizeConfig ruleName (defaultConfig ruleName)) (failureAt 1)),
             reviveToIssue ruleName () (stubJson (normalizeConfig ruleName (defaultConfig ruleName)) (failureAt 0.8))]
        \<and> length (elems issues) = 2)"
proof -
  let ?conf = "normalizeConfig ruleName (defaultConfig ruleName)"
  let ?fs = "[failureAt 0.5, failureAt 1, failureAt 0.8]"
  let ?ext = "stubPackages 0 ?fs"
  have fw: "forwardFailures ?conf ?fs = [failureAt 1, failureAt 0.8]"
    by (simp add: defaultConfig_Confidence failureAt_def)
  have 1: "getReviveConfig ?ext ruleName zeroSettings = Inr (Inr ?conf)"
    by (rule getReviveConfig_zero)
  have 2: "GetFormatter ?ext ''json'' = Inr ()"
    by (simp add: stubPackages_def)
  have 3: "GetLintingRules ?ext ?conf = Inr ()"
    by (simp add: stubPackages_def)
  have 4: "Lint ?ext (ReviveSettings.MaxOpenFiles zeroSettings) [getFileNames ?ext ()] () ?conf = Inr ?fs"
    by (simp add: stubPackages_def)
  have 5: "jsonUnmarshal ?ext (fst (Format ?ext () (forwardFailures ?conf ?fs) ?conf))
             = Inr (map (stubJson ?conf) (forwardFailures ?conf ?fs))"
    by (simp add: stubPackages_def)
  from runRevive_confidence_filter [OF 1 2 3 4 5] obtain issues where
    r: "runRevive ?ext ruleName () zeroSettings = Inr (issues, None)"
       "elems issues = map (reviveToIssue ruleName () \<circ> stubJson ?conf) (forwardFailures ?conf ?fs)"
    by blast
  from r(2) have e: "elems issues =
      [reviveToIssue ruleName () (stubJson ?conf (failureAt 1)),
       reviveToIssue ruleName () (stubJson ?conf (failureAt 0.8))]"
    unfolding fw by simp
  then have "length (elems issues) = 2" by simp
  with fw r(1) e show ?thesis by blast
qed

text \<open>
  Claim C8. A call of \<open>runRevive\<close> that returns an error returns the nil issue list with it; and
  a failure of the encoding or the decoding of the configuration, of the formatter lookup, of
  the rule resolution, of the engine, or of the decoding of the results makes the call return
  that error with the nil issue list.
\<close>

theorem runRevive_atomic_on_error:
  "(runRevive ext nm pass settings = Inr (issues, Some err) \<longrightarrow> issues = None)
   \<and> (settings \<noteq> zeroSettings \<and> createConfigMap settings = Inr raw \<and> tomlEncode ext raw = Inl err
        \<longrightarrow> runRevive ext nm pass settings =
              Inr (None, Some (''failed to encode configuration: '' @ err)))
   \<and> (settings \<noteq> zeroSettings \<and> createConfigMap settings = Inr raw \<and> tomlEncode ext raw = Inr buf
        \<and> tomlDecode ext buf = Inl err
        \<longrightarrow> runRevive ext nm pass settings =
              Inr (None, Some (''failed to decode configuration: '' @ err)))
   \<and> (getReviveConfig ext nm settings = Inr (Inr conf) \<and> GetFormatter ext ''json'' = Inl err
        \<longrightarrow> runRevive ext nm pass settings = Inr (None, Some err))
   \<and> (getReviveConfig ext nm settings = Inr (Inr conf) \<and> GetFormatter ext ''json'' = Inr formatter
        \<and> GetLintingRules ext conf = Inl err
        \<longrightarrow> runRevive ext nm pass settings = Inr (None, Some err))
   \<and> (getReviveConfig ext nm settings = Inr (Inr conf) \<and> GetFormatter ext ''json'' = Inr formatter
        \<and> GetLintingRules ext conf = Inr lintingRules
        \<and> Lint ext (ReviveSettings.MaxOpenFiles settings) [getFileNames ext pass] lintingRules conf = Inl err
        \<longrightarrow> runRevive ext nm pass settings = Inr (None, Some err))
   \<and> (getReviveConfig ext nm settings = Inr (Inr conf) \<and> GetFormatter ext ''json'' = Inr formatter
        \<and> GetLintingRules ext conf = Inr lintingRules
        \<and> Lint ext (ReviveSettings.MaxOpenFiles settings) [getFileNames ext pass] lintingRules conf = Inr failures
        \<and> jsonUnmarshal ext (fst (Format ext formatter (forwardFailures conf failures) conf)) = Inl err
        \<longrightarrow> runRevive ext nm pass settings = Inr (None, Some err))"
proof -
  have A: "runRevive ext nm pass settings = Inr (issues, Some err) \<longrightarrow> issues = None"
    by (auto simp: runRevive_def Let_def split: sum.splits)
  have B: "settings \<noteq> zeroSettings \<and> createConfigMap settings = Inr raw \<and> tomlEncode ext raw = Inl err
        \<longrightarrow> runRevive ext nm pass settings =
              Inr (None, Some (''failed to encode configuration: '' @ err))"
    by (simp add: runRevive_def getReviveConfig_def)
  have C: "settings \<noteq> zeroSettings \<and> createConfigMap settings = Inr raw \<and> tomlEncode ext raw = Inr buf
        \<and> tomlDecode ext buf = Inl err
        \<longrightarrow> runRevive ext nm pass settings =
              Inr (None, Some (''failed to decode configuration: '' @ err))"
    by (simp add: runRevive_def getReviveConfig_def)
  have D: "getReviveConfig ext nm settings = Inr (Inr conf) \<and> GetFormatter ext ''json'' = Inl err
        \<longrightarrow> runRevive ext nm pass settings = Inr (None, Some err)"
    by (simp add: runRevive_def)
  have E: "getReviveConfig ext nm settings = Inr (Inr conf) \<and> GetFormatter ext ''json'' = Inr formatter
        \<and> GetLintingRules ext conf = Inl err
        \<longrightarrow> runRevive ext nm pass settings = Inr (None, Some err)"
    by (simp add: runRevive_def)
  have F: "getReviveConfig ext nm settings = Inr (Inr conf) \<and> GetFormatter ext ''json'' = Inr formatter
        \<and> GetLintingRules ext conf = Inr lintingRules
        \<and> Lint ext (ReviveSettings.MaxOpenFiles settings) [getFileNames ext pass] lintingRules conf = Inl err
        \<longrightarrow> runRevive ext nm pass settings = Inr (None, Some err)"
    by (simp add: runRevive_def)
  have G: "getReviveConfig ext nm settings = Inr (Inr conf) \<and> GetFormatter ext ''json'' = Inr formatter
        \<and> GetLintingRules ext conf = Inr lintingRules
        \<and> Lint ext (ReviveSettings.MaxOpenFiles settings) [getFileNames ext pass] lintingRules conf = Inr failures
        \<and> jsonUnmarshal ext (fst (Format ext formatter (forwardFailures conf failures) conf)) = Inl err
        \<longrightarrow> runRevive ext nm pass settings = Inr (None, Some err)"
    by (simp add: runRevive_def)
  from A B C D E F G show ?thesis by (intro conjI)
qed

theorem runRevive_atomic_on_error_witness:
  "runRevive (stubPackages 1 []) ruleName () exportedErrorSettings
     = Inr (None, Some ''failed to encode configuration: cannot encode'')
   \<and> runRevive (stubPackages 2 []) ruleName () exportedErrorSettings
     = Inr (None, Some ''failed to decode configuration: cannot decode'')
   \<and> runRevive (stubPackages 3 []) ruleName () zeroSettings = Inr (None, Some ''unknown formatter'')
   \<and> runRevive (stubPackages 4 []) ruleName () zeroSettings = Inr (None, Some ''cannot find rule'')
   \<and> runRevive (stubPackages 5 []) ruleName () zeroSettings = Inr (None, Some ''cannot lint'')
   \<and> runRevive (stubPackages 6 [failureAt 1]) ruleName () zeroSettings
     = Inr (None, Some ''unexpected end of JSON input'')"
proof -
  let ?conf = "normalizeConfig ruleName (defaultConfig ruleName)"
  note nz = exportedErrorSettings_not_zero
  note cm = createConfigMap_exportedErrorSettings
  have 1: "runRevive (stubPackages 1 []) ruleName () exportedErrorSettings
     = Inr (None, Some ''failed to encode configuration: cannot encode'')"
    using runRevive_atomic_on_error [of "stubPackages 1 []" ruleName "()" exportedErrorSettings
        None "''cannot encode''" exportedErrorRaw exportedErrorRaw ?conf "()" "()" "[]"] nz cm
    by (simp add: stubPackages_def)
  have 2: "runRevive (stubPackages 2 []) ruleName () exportedErrorSettings
     = Inr (None, Some ''failed to decode configuration: cannot decode'')"
    using runRevive_atomic_on_error [of "stubPackages 2 []" ruleName "()" exportedErrorSettings
        None "''cannot decode''" exportedErrorRaw exportedErrorRaw ?conf "()" "()" "[]"] nz cm
    by (simp add: stubPackages_def)
  have 3: "runRevive (stubPackages 3 []) ruleName () zeroSettings = Inr (None, Some ''unknown formatter'')"
    using runRevive_atomic_on_error [of "stubPackages 3 []" ruleName "()" zeroSettings
        None "''unknown formatter''" exportedErrorRaw exportedErrorRaw ?conf "()" "()" "[]"]
    by (simp add: stubPackages_def getReviveConfig_zero)
  have 4: "runRevive (stubPackages 4 []) ruleName () zeroSettings = Inr (None, Some ''cannot find rule'')"
    using runRevive_atomic_on_error [of "stubPackages 4 []" ruleName "()" zeroSettings
        None "''cannot find rule''" exportedErrorRaw exportedErrorRaw ?conf "()" "()" "[]"]
    by (simp add: stubPackages_def getReviveConfig_zero)
  have 5: "runRevive (stubPackages 5 []) ruleName () zeroSettings = Inr (None, Some ''cannot lint'')"
    using runRevive_atomic_on_error [of "stubPackages 5 []" ruleName "()" zeroSettings
        None "''cannot lint''" exportedErrorRaw exportedErrorRaw ?conf "()" "()" "[]"]
    by (simp add: stubPackages_def getReviveConfig_zero)
  have 6: "runRevive (stubPackages 6 [failureAt 1]) ruleName () zeroSettings
     = Inr (None, Some ''unexpected end of JSON input'')"
    using runRevive_atomic_on_error [of "stubPackages 6 [failureAt 1]" ruleName "()" zeroSettings
        None "''unexpected end of JSON input''" exportedErrorRaw exportedErrorRaw ?conf "()" "()" "[failureAt 1]"]
    by (simp add: stubPackages_def getReviveConfig_zero)
  from 1 2 3 4 5 6 show ?thesis by (intro conjI)
qed

subsection \<open>Argument lists\<close>

lemma stringKeys_fail:
  "\<not> list_all (\<lambda>kv. isString (fst kv)) kvs \<Longrightarrow> stringKeys kvs item = Inl InterfaceConversionToString"
  by (induction kvs item rule: stringKeys.induct) (auto simp: isString_def split: any.splits)

lemma stringKeys_ok:
  "list_all (\<lambda>kv. isString (fst kv)) kvs \<Longrightarrow>
     \<exists>item'. stringKeys kvs item = Inr item'
       \<and> (\<forall>s. map_of item' s =
             (case map_of (rev kvs) (AnyString s) of Some v \<Rightarrow> Some v | None \<Rightarrow> map_of item s))
       \<and> (distinct (map fst item) \<longrightarrow> distinct (map fst item'))"
proof (induction kvs item rule: stringKeys.induct)
  case (1 item)
  then show ?case by simp
next
  case (2 k v kvs item)
  then obtain s where k: "k = AnyString s"
    by (cases k) (auto simp: isString_def)
  from 2 k obtain item' where
    *: "stringKeys kvs (AList.update s v item) = Inr item'"
       "\<forall>t. map_of item' t =
             (case map_of (rev kvs) (AnyString t) of Some w \<Rightarrow> Some w
              | None \<Rightarrow> map_of (AList.update s v item) t)"
       "distinct (map fst (AList.update s v item)) \<longrightarrow> distinct (map fst item')"
    by auto
  show ?case
    using * k
    by (auto simp: update_conv' distinct_update map_add_def split: option.splits)
qed

lemma stringKeys_ok_nil:
  assumes "list_all (\<lambda>kv. isString (fst kv)) kvs"
  shows "\<exists>item. stringKeys kvs [] = Inr item \<and> distinct (map fst item)
           \<and> (\<forall>s. map_of item s = map_of (rev kvs) (AnyString s))"
proof -
  from stringKeys_ok [OF assms, of "[]"] obtain item where
    i: "stringKeys kvs [] = Inr item"
       "\<forall>s. map_of item s =
             (case map_of (rev kvs) (AnyString s) of Some v \<Rightarrow> Some v | None \<Rightarrow> map_of [] s)"
       "distinct (map fst item)"
    by auto
  have "map_of item s = map_of (rev kvs) (AnyString s)" for s
    using i(2) by (cases "map_of (rev kvs) (AnyString s)") simp_all
  with i show ?thesis by blast
qed

lemma typedElems_fail:
  "\<not> list_all stringKeyedMap es \<Longrightarrow> \<exists>p. typedElems es typed = Inl p"
proof (induction es typed rule: typedElems.induct)
  case (1 typed)
  then show ?case by simp
next
  case (2 elt rest typed)
  show ?case
  proof (cases "stringKeyedMap elt")
    case True
    then obtain kvs where e: "elt = AnyMapAny kvs" "list_all (\<lambda>kv. isString (fst kv)) kvs"
      by (cases elt) (auto simp: stringKeyedMap_def)
    from stringKeys_ok_nil [OF e(2)] obtain item where i: "stringKeys kvs [] = Inr item"
      by blast
    from 2(2) True have "\<not> list_all stringKeyedMap rest"
      by simp
    from 2(1) [OF e(1) i this] obtain p where
      "typedElems rest (typed @ [AnyMapString item]) = Inl p" by blast
    with e i show ?thesis by simp
  next
    case False
    then show ?thesis
      by (cases elt) (auto simp: stringKeyedMap_def stringKeys_fail)
  qed
qed

lemma typedElems_ok:
  "list_all stringKeyedMap es \<Longrightarrow>
     \<exists>typed'. typedElems es typed = Inr (typed @ typed') \<and> list_all2 retyped es typed'"
proof (induction es typed rule: typedElems.induct)
  case (1 typed)
  then show ?case by simp
next
  case (2 elt rest typed)
  then obtain kvs where e: "elt = AnyMapAny kvs" "list_all (\<lambda>kv. isString (fst kv)) kvs"
    by (cases elt) (auto simp: stringKeyedMap_def)
  from stringKeys_ok_nil [OF e(2)] obtain item where
    i: "stringKeys kvs [] = Inr item" "distinct (map fst item)"
       "\<forall>s. map_of item s = map_of (rev kvs) (AnyString s)"
    by blast
  have r: "retyped elt (AnyMapString item)"
    using e i by (auto simp: retyped_def)
  from 2(2) have "list_all stringKeyedMap rest" by simp
  from 2(1) [OF e(1) i(1) this] obtain typed' where
    t: "typedElems rest (typed @ [AnyMapString item]) = Inr ((typed @ [AnyMapString item]) @ typed')"
       "list_all2 retyped rest typed'"
    by blast
  have "typedElems (elt # rest) typed = Inr (typed @ AnyMapString item # typed')"
    using e(1) i(1) t(1) by simp
  moreover have "list_all2 retyped (elt # rest) (AnyMapString item # typed')"
    using r t(2) by simp
  ultimately show ?case by blast
qed

lemma safeTomlSlice_cases:
  "safeTomlSlice r =
     (case elems r of
        [] \<Rightarrow> Inr None
      | r0 # rest \<Rightarrow> if isMapAny r0
          then (case typedElems (elems r) [] of Inl p \<Rightarrow> Inl p | Inr typed \<Rightarrow> Inr (Some typed))
          else Inr r)"
  by (auto simp: safeTomlSlice_def isMapAny_def split: list.splits any.splits)

lemma safeTomlSlice_maps:
  assumes "elems r = r0 # rest" "isMapAny r0"
  shows "if list_all stringKeyedMap (elems r)
         then \<exists>typed. safeTomlSlice r = Inr (Some typed) \<and> list_all2 retyped (elems r) typed
         else \<exists>p. safeTomlSlice r = Inl p"
proof (cases "list_all stringKeyedMap (elems r)")
  case True
  from typedElems_ok [OF True, of "[]"] obtain typed where
    "typedElems (elems r) [] = Inr typed" "list_all2 retyped (elems r) typed"
    by auto
  with assms True show ?thesis
    by (auto simp: safeTomlSlice_cases)
next
  case False
  from typedElems_fail [OF False, of "[]"] obtain p where "typedElems (elems r) [] = Inl p"
    by blast
  with assms False show ?thesis
    by (auto simp: safeTomlSlice_cases)
qed

lemma rawRulesLoop_panic:
  "(\<exists>p. rawRulesLoop ss m = Inl p) \<longleftrightarrow> (\<exists>s\<in>set ss. \<exists>p. safeTomlSlice (RuleSettings.Arguments s) = Inl p)"
proof (induction ss arbitrary: m)
  case Nil
  then show ?case by simp
next
  case (Cons s ss)
  show ?case
  proof (cases "safeTomlSlice (RuleSettings.Arguments s)")
    case (Inl p)
    then show ?thesis by auto
  next
    case (Inr args)
    then have eq: "rawRulesLoop (s # ss) m =
        rawRulesLoop ss (m(RuleSettings.Name s \<mapsto>
               \<lparr>rawRule.severity = RuleSettings.Severity s,
                rawRule.arguments = args,
                rawRule.disabled = RuleSettings.Disabled s\<rparr>))"
      by simp
    have "(\<exists>s'\<in>set (s # ss). \<exists>p. safeTomlSlice (RuleSettings.Arguments s') = Inl p)
        \<longleftrightarrow> (\<exists>s'\<in>set ss. \<exists>p. safeTomlSlice (RuleSettings.Arguments s') = Inl p)"
      using Inr by simp
    then show ?thesis unfolding eq using Cons.IH by blast
  qed
qed

lemma createConfigMap_panic:
  "(\<exists>p. createConfigMap cfg = Inl p) \<longleftrightarrow>
     (\<exists>s\<in>set (elems (ReviveSettings.Rules cfg)). \<exists>p. safeTomlSlice (RuleSettings.Arguments s) = Inl p)"
  using rawRulesLoop_panic [of "elems (ReviveSettings.Rules cfg)" Map.empty]
  by (auto simp: createConfigMap_def Let_def split: sum.splits)

text \<open>
  Claim C6, as the code has it. For an argument list that is not empty: when its first element
  is a \<open>map[any]any\<close>, \<open>safeTomlSlice\<close> panics if some element is not a \<open>map[any]any\<close> with
  string keys only, and otherwise returns the list of the same maps retyped, each with the
  same value under every key; when its first element is not a \<open>map[any]any\<close>, the list is
  returned as it is and nothing fails. A panic of \<open>safeTomlSlice\<close> on the arguments of a rule
  is a panic of \<open>createConfigMap\<close>.
\<close>

theorem safeTomlSlice_key_coercion:
  assumes "elems r = r0 # rest"
  shows "(if isMapAny r0
          then (if list_all stringKeyedMap (elems r)
                then \<exists>typed. safeTomlSlice r = Inr (Some typed) \<and> list_all2 retyped (elems r) typed
                else \<exists>p. safeTomlSlice r = Inl p)
          else safeTomlSlice r = Inr r)
       \<and> ((\<exists>p. safeTomlSlice r = Inl p) \<longrightarrow>
            (\<forall>cfg. (\<exists>s\<in>set (elems (ReviveSettings.Rules cfg)). RuleSettings.Arguments s = r)
               \<longrightarrow> (\<exists>p. createConfigMap cfg = Inl p)))"
proof -
  have 1: "if isMapAny r0
          then (if list_all stringKeyedMap (elems r)
                then \<exists>typed. safeTomlSlice r = Inr (Some typed) \<and> list_all2 retyped (elems r) typed
                else \<exists>p. safeTomlSlice r = Inl p)
          else safeTomlSlice r = Inr r"
  proof (cases "isMapAny r0")
    case True
    with safeTomlSlice_maps [OF assms True] show ?thesis by simp
  next
    case False
    with assms show ?thesis by (simp add: safeTomlSlice_cases)
  qed
  have 2: "\<exists>p. createConfigMap cfg = Inl p"
    if "\<exists>p. safeTomlSlice r = Inl p" "\<exists>s\<in>set (elems (ReviveSettings.Rules cfg)). RuleSettings.Arguments s = r" for cfg
    using that unfolding createConfigMap_panic by blast
  from 1 2 show ?thesis by blast
qed

theorem safeTomlSlice_key_coercion_witness:
  "safeTomlSlice (Some [AnyMapAny [(AnyString ''maxLitCount'', AnyString ''3''), (AnyString ''allowInts'', AnyString ''0,1'')]])
     = Inr (Some [AnyMapString [(''maxLitCount'', AnyString ''3''), (''allowInts'', AnyString ''0,1'')]])
   \<and> retyped (AnyMapAny [(AnyString ''maxLitCount'', AnyString ''3''), (AnyString ''allowInts'', AnyString ''0,1'')])
        (AnyMapString [(''maxLitCount'', AnyString ''3''), (''allowInts'', AnyString ''0,1'')])
   \<and> (\<exists>p. safeTomlSlice (Some [AnyMapAny [(AnyInt 1, AnyInt 2)]]) = Inl p)
   \<and> (\<exists>p. createConfigMap (withArguments (Some [AnyMapAny [(AnyInt 1, AnyInt 2)]])) = Inl p)"
proof -
  let ?e = "AnyMapAny [(AnyString ''maxLitCount'', AnyString ''3''), (AnyString ''allowInts'', AnyString ''0,1'')]"
  let ?t = "AnyMapString [(''maxLitCount'', AnyString ''3''), (''allowInts'', AnyString ''0,1'')]"
  let ?bad = "Some [AnyMapAny [(AnyInt 1, AnyInt 2)]]"
  have ev: "safeTomlSlice (Some [?e]) = Inr (Some [?t])"
    by (simp add: safeTomlSlice_def elems_Some)
  have h1: "elems (Some [?e]) = ?e # []"
    by (simp add: elems_Some)
  have ok: "isMapAny ?e" "list_all stringKeyedMap (elems (Some [?e]))"
    by (simp_all add: isMapAny_def stringKeyedMap_def isString_def elems_Some)
  from safeTomlSlice_key_coercion [OF h1] ok obtain typed where
    t: "safeTomlSlice (Some [?e]) = Inr (Some typed)" "list_all2 retyped (elems (Some [?e])) typed"
    by auto
  from t(1) ev have "typed = [?t]" by simp
  with t(2) have rt: "retyped ?e ?t" by (simp add: elems_Some)
  have h2: "elems ?bad = AnyMapAny [(AnyInt 1, AnyInt 2)] # []"
    by (simp add: elems_Some)
  have nok: "isMapAny (AnyMapAny [(AnyInt 1, AnyInt 2)])" "\<not> list_all stringKeyedMap (elems ?bad)"
    by (simp_all add: isMapAny_def stringKeyedMap_def isString_def elems_Some)
  from safeTomlSlice_key_coercion [OF h2] nok
  have p: "\<exists>p. safeTomlSlice ?bad = Inl p"
    and c: "\<forall>cfg. (\<exists>s\<in>set (elems (ReviveSettings.Rules cfg)). RuleSettings.Arguments s = ?bad)
               \<longrightarrow> (\<exists>p. createConfigMap cfg = Inl p)"
    by auto
  have "\<exists>s\<in>set (elems (ReviveSettings.Rules (withArguments ?bad))). RuleSettings.Arguments s = ?bad"
    by (simp add: withArguments_def elems_Some)
  with c have "\<exists>p. createConfigMap (withArguments ?bad) = Inl p" by blast
  with ev rt p show ?thesis by blast
qed

text \<open>
  The claim as the specification states it fails when the map is not the first element: the
  list holds a map with the key 1, which is not a string, and neither \<open>safeTomlSlice\<close> nor
  \<open>createConfigMap\<close> fails.
\<close>

theorem non_string_key_counterexample:
  "isMapAny (AnyMapAny [(AnyInt 1, AnyInt 2)])
   \<and> \<not> isString (AnyInt 1)
   \<and> safeTomlSlice (Some [AnyString ''x'', AnyMapAny [(AnyInt 1, AnyInt 2)]])
       = Inr (Some [AnyString ''x'', AnyMapAny [(AnyInt 1, AnyInt 2)]])
   \<and> \<not> isl (createConfigMap (withArguments (Some [AnyString ''x'', AnyMapAny [(AnyInt 1, AnyInt 2)]])))"
  by (simp add: isMapAny_def isString_def safeTomlSlice_def elems_Some createConfigMap_def
      withArguments_def elems_None)

lemma rawRulesLoop_entries:
  "rawRulesLoop ss m = Inr m' \<Longrightarrow>
     m' n = m n \<or>
     (\<exists>s\<in>set ss. RuleSettings.Name s = n \<and>
        (\<exists>args. safeTomlSlice (RuleSettings.Arguments s) = Inr args \<and>
           m' n = Some \<lparr>rawRule.severity = RuleSettings.Severity s, rawRule.arguments = args,
                        rawRule.disabled = RuleSettings.Disabled s\<rparr>))"
proof (induction ss arbitrary: m)
  case Nil
  then show ?case by simp
next
  case (Cons a ss)
  from Cons.prems obtain args where
    a: "safeTomlSlice (RuleSettings.Arguments a) = Inr args"
    by (cases "safeTomlSlice (RuleSettings.Arguments a)") simp_all
  let ?e = "\<lparr>rawRule.severity = RuleSettings.Severity a, rawRule.arguments = args,
             rawRule.disabled = RuleSettings.Disabled a\<rparr>"
  let ?m1 = "m(RuleSettings.Name a \<mapsto> ?e)"
  from Cons.prems a have l: "rawRulesLoop ss ?m1 = Inr m'" by simp
  from Cons.IH [OF l] consider
    (same) "m' n = ?m1 n"
    | (later) "\<exists>s\<in>set ss. RuleSettings.Name s = n \<and>
        (\<exists>args. safeTomlSlice (RuleSettings.Arguments s) = Inr args \<and>
           m' n = Some \<lparr>rawRule.severity = RuleSettings.Severity s, rawRule.arguments = args,
                        rawRule.disabled = RuleSettings.Disabled s\<rparr>)"
    by blast
  then show ?case
  proof cases
    case same
    show ?thesis
    proof (cases "n = RuleSettings.Name a")
      case True
      with same a have "m' n = Some ?e" by simp
      with True a show ?thesis by auto
    next
      case False
      with same show ?thesis by simp
    qed
  next
    case later
    then show ?thesis by auto
  qed
qed

lemma rawRulesLoop_member:
  "rawRulesLoop ss m = Inr m' \<Longrightarrow> s \<in> set ss \<Longrightarrow>
     \<exists>s'\<in>set ss. RuleSettings.Name s' = RuleSettings.Name s \<and>
        (\<exists>args. safeTomlSlice (RuleSettings.Arguments s') = Inr args \<and>
           m' (RuleSettings.Name s) =
             Some \<lparr>rawRule.severity = RuleSettings.Severity s', rawRule.arguments = args,
                    rawRule.disabled = RuleSettings.Disabled s'\<rparr>)"
proof (induction ss arbitrary: m)
  case Nil
  then show ?case by simp
next
  case (Cons a ss)
  from Cons.prems(1) obtain args where
    a: "safeTomlSlice (RuleSettings.Arguments a) = Inr args"
    by (cases "safeTomlSlice (RuleSettings.Arguments a)") simp_all
  let ?e = "\<lparr>rawRule.severity = RuleSettings.Severity a, rawRule.arguments = args,
             rawRule.disabled = RuleSettings.Disabled a\<rparr>"
  let ?m1 = "m(RuleSettings.Name a \<mapsto> ?e)"
  from Cons.prems(1) a have l: "rawRulesLoop ss ?m1 = Inr m'" by simp
  show ?case
  proof (cases "s \<in> set ss")
    case True
    from Cons.IH [OF l True] show ?thesis by auto
  next
    case False
    with Cons.prems(2) have sa: "s = a" by simp
    from rawRulesLoop_entries [OF l, of "RuleSettings.Name a"] consider
      (same) "m' (RuleSettings.Name a) = Some ?e"
      | (later) "\<exists>s'\<in>set ss. RuleSettings.Name s' = RuleSettings.Name a \<and>
          (\<exists>args. safeTomlSlice (RuleSettings.Arguments s') = Inr args \<and>
             m' (RuleSettings.Name a) =
               Some \<lparr>rawRule.severity = RuleSettings.Severity s', rawRule.arguments = args,
                      rawRule.disabled = RuleSettings.Disabled s'\<rparr>)"
      by auto
    then show ?thesis
    proof cases
      case same
      with a sa show ?thesis by auto
    next
      case later
      with sa show ?thesis by auto
    qed
  qed
qed

lemma createConfigMap_arguments:
  assumes "createConfigMap cfg = Inr raw" "s \<in> set (elems (ReviveSettings.Rules cfg))"
  shows "\<exists>tbl s' args. rawRoot.rule raw = Some tbl
           \<and> s' \<in> set (elems (ReviveSettings.Rules cfg))
           \<and> RuleSettings.Name s' = RuleSettings.Name s
           \<and> safeTomlSlice (RuleSettings.Arguments s') = Inr args
           \<and> tbl (RuleSettings.Name s) =
               Some \<lparr>rawRule.severity = RuleSettings.Severity s', rawRule.arguments = args,
                      rawRule.disabled = RuleSettings.Disabled s'\<rparr>"
proof -
  from assms(1) obtain tbl where
    l: "rawRulesLoop (elems (ReviveSettings.Rules cfg)) Map.empty = Inr tbl"
    and r: "rawRoot.rule raw = (if dom tbl \<noteq> {} then Some tbl else None)"
    by (auto simp: createConfigMap_def Let_def split: sum.splits)
  from rawRulesLoop_member [OF l assms(2)] obtain s' args where
    m: "s' \<in> set (elems (ReviveSettings.Rules cfg))" "RuleSettings.Name s' = RuleSettings.Name s"
       "safeTomlSlice (RuleSettings.Arguments s') = Inr args"
       "tbl (RuleSettings.Name s) =
             Some \<lparr>rawRule.severity = RuleSettings.Severity s', rawRule.arguments = args,
                    rawRule.disabled = RuleSettings.Disabled s'\<rparr>"
    by blast
  from m(4) have "dom tbl \<noteq> {}" by auto
  with r have "rawRoot.rule raw = Some tbl" by simp
  with m show ?thesis by blast
qed

text \<open>
  Claim C7, as the code has it. For an argument list of length 0, \<open>safeTomlSlice\<close> returns the
  nil slice. For a list whose first element is not a \<open>map[any]any\<close> it returns the list as it
  is. For a list whose first element is a \<open>map[any]any\<close>: when every element is a
  \<open>map[any]any\<close> with string keys only, it returns the list of all the elements retyped to
  string keys, each with the same values under the same keys; when some element is not, it
  panics. \<open>createConfigMap\<close> panics exactly when \<open>safeTomlSlice\<close> panics on the arguments of a
  rule of the settings; otherwise the raw tree holds, under the name of every rule of the
  settings, the severity, the disabled flag and the slice \<open>safeTomlSlice\<close> returned for the
  arguments of a rule of that name.
\<close>

theorem safeTomlSlice_normalization:
  "(len r = 0 \<longrightarrow> safeTomlSlice r = Inr None)
   \<and> (elems r = r0 # rest \<and> \<not> isMapAny r0 \<longrightarrow> safeTomlSlice r = Inr r)
   \<and> (elems r = r0 # rest \<and> isMapAny r0 \<longrightarrow>
        (if list_all stringKeyedMap (elems r)
         then \<exists>typed. safeTomlSlice r = Inr (Some typed) \<and> list_all2 retyped (elems r) typed
         else \<exists>p. safeTomlSlice r = Inl p))
   \<and> ((\<exists>p. createConfigMap cfg = Inl p) \<longleftrightarrow>
        (\<exists>s\<in>set (elems (ReviveSettings.Rules cfg)). \<exists>p. safeTomlSlice (RuleSettings.Arguments s) = Inl p))
   \<and> (createConfigMap cfg = Inr raw \<and> s \<in> set (elems (ReviveSettings.Rules cfg)) \<longrightarrow>
        (\<exists>tbl s' args. rawRoot.rule raw = Some tbl
           \<and> s' \<in> set (elems (ReviveSettings.Rules cfg))
           \<and> RuleSettings.Name s' = RuleSettings.Name s
           \<and> safeTomlSlice (RuleSettings.Arguments s') = Inr args
           \<and> tbl (RuleSettings.Name s) =
               Some \<lparr>rawRule.severity = RuleSettings.Severity s', rawRule.arguments = args,
                      rawRule.disabled = RuleSettings.Disabled s'\<rparr>))"
proof -
  have 1: "len r = 0 \<longrightarrow> safeTomlSlice r = Inr None"
    by (simp add: len_def safeTomlSlice_cases)
  have 2: "elems r = r0 # rest \<and> \<not> isMapAny r0 \<longrightarrow> safeTomlSlice r = Inr r"
    by (simp add: safeTomlSlice_cases)
  have 3: "elems r = r0 # rest \<and> isMapAny r0 \<longrightarrow>
        (if list_all stringKeyedMap (elems r)
         then \<exists>typed. safeTomlSlice r = Inr (Some typed) \<and> list_all2 retyped (elems r) typed
         else \<exists>p. safeTomlSlice r = Inl p)"
    using safeTomlSlice_maps by blast
  have 4: "(\<exists>p. createConfigMap cfg = Inl p) \<longleftrightarrow>
        (\<exists>s\<in>set (elems (ReviveSettings.Rules cfg)). \<exists>p. safeTomlSlice (RuleSettings.Arguments s) = Inl p)"
    by (rule createConfigMap_panic)
  have 5: "createConfigMap cfg = Inr raw \<and> s \<in> set (elems (ReviveSettings.Rules cfg)) \<longrightarrow>
        (\<exists>tbl s' args. rawRoot.rule raw = Some tbl
           \<and> s' \<in> set (elems (ReviveSettings.Rules cfg))
           \<and> RuleSettings.Name s' = RuleSettings.Name s
           \<and> safeTomlSlice (RuleSettings.Arguments s') = Inr args
           \<and> tbl (RuleSettings.Name s) =
               Some \<lparr>rawRule.severity = RuleSettings.Severity s', rawRule.arguments = args,
                      rawRule.disabled = RuleSettings.Disabled s'\<rparr>)"
    using createConfigMap_arguments by blast
  from 1 2 3 4 5 show ?thesis by (intro conjI)
qed

theorem safeTomlSlice_normalization_witness:
  "safeTomlSlice (Some []) = Inr None
   \<and> safeTomlSlice (Some [AnyString ''checkPrivateReceivers'', AnyString ''sayRepetitiveInsteadOfStutters''])
       = Inr (Some [AnyString ''checkPrivateReceivers'', AnyString ''sayRepetitiveInsteadOfStutters''])
   \<and> safeTomlSlice (Some [AnyMapAny [(AnyString ''maxLitCount'', AnyString ''3'')],
                           AnyMapAny [(AnyString ''allowStrs'', AnyString ''x''), (AnyString ''allowInts'', AnyString ''0,1'')]])
       = Inr (Some [AnyMapString [(''maxLitCount'', AnyString ''3'')],
                    AnyMapString [(''allowStrs'', AnyString ''x''), (''allowInts'', AnyString ''0,1'')]])
   \<and> list_all2 retyped
        [AnyMapAny [(AnyString ''maxLitCount'', AnyString ''3'')],
         AnyMapAny [(AnyString ''allowStrs'', AnyString ''x''), (AnyString ''allowInts'', AnyString ''0,1'')]]
        [AnyMapString [(''maxLitCount'', AnyString ''3'')],
         AnyMapString [(''allowStrs'', AnyString ''x''), (''allowInts'', AnyString ''0,1'')]]
   \<and> (\<exists>p. safeTomlSlice (Some [AnyMapAny [(AnyString ''maxLitCount'', AnyString ''3'')],
                                 AnyMapAny [(AnyInt 1, AnyInt 2)]]) = Inl p)
   \<and> (\<exists>p. createConfigMap (withArguments (Some [AnyMapAny [(AnyString ''maxLitCount'', AnyString ''3'')],
                                                   AnyString ''x''])) = Inl p)
   \<and> (\<exists>tbl. rawRoot.rule exportedErrorRaw = Some tbl
         \<and> tbl ''exported'' = Some \<lparr>rawRule.severity = ''error'', arguments = None, disabled = False\<rparr>)"
proof -
  let ?strs = "Some [AnyString ''checkPrivateReceivers'', AnyString ''sayRepetitiveInsteadOfStutters'']"
  let ?m1 = "AnyMapAny [(AnyString ''maxLitCount'', AnyString ''3'')]"
  let ?m2 = "AnyMapAny [(AnyString ''allowStrs'', AnyString ''x''), (AnyString ''allowInts'', AnyString ''0,1'')]"
  let ?t1 = "AnyMapString [(''maxLitCount'', AnyString ''3'')]"
  let ?t2 = "AnyMapString [(''allowStrs'', AnyString ''x''), (''allowInts'', AnyString ''0,1'')]"
  let ?bad = "AnyMapAny [(AnyInt 1, AnyInt 2)]"
  let ?mixed = "Some [?m1, AnyString ''x'']"
  let ?s = "\<lparr>RuleSettings.Name = ''exported'', RuleSettings.Arguments = None,
            RuleSettings.Severity = ''error'', RuleSettings.Disabled = False\<rparr>"
  let ?w = "\<lparr>RuleSettings.Name = ''add-constant'', RuleSettings.Arguments = ?mixed,
            RuleSettings.Severity = [], RuleSettings.Disabled = False\<rparr>"
  note n = safeTomlSlice_normalization
  have "len (Some [] :: any slice) = 0" by (simp add: len_def elems_Some)
  with n [of "Some []" AnyNil "[]" zeroSettings exportedErrorRaw ?s]
  have 1: "safeTomlSlice (Some []) = Inr None" by blast
  have "elems ?strs = AnyString ''checkPrivateReceivers'' # [AnyString ''sayRepetitiveInsteadOfStutters'']
        \<and> \<not> isMapAny (AnyString ''checkPrivateReceivers'')"
    by (simp add: elems_Some isMapAny_def)
  with n [of ?strs "AnyString ''checkPrivateReceivers''" "[AnyString ''sayRepetitiveInsteadOfStutters'']"
        zeroSettings exportedErrorRaw ?s]
  have 2: "safeTomlSlice ?strs = Inr ?strs" by blast
  have ev: "safeTomlSlice (Some [?m1, ?m2]) = Inr (Some [?t1, ?t2])"
    by (simp add: safeTomlSlice_def elems_Some)
  have "elems (Some [?m1, ?m2]) = ?m1 # [?m2] \<and> isMapAny ?m1"
    and ok: "list_all stringKeyedMap (elems (Some [?m1, ?m2]))"
    by (simp_all add: elems_Some isMapAny_def stringKeyedMap_def isString_def)
  with n [of "Some [?m1, ?m2]" ?m1 "[?m2]" zeroSettings exportedErrorRaw ?s]
  have "\<exists>typed. safeTomlSlice (Some [?m1, ?m2]) = Inr (Some typed)
          \<and> list_all2 retyped (elems (Some [?m1, ?m2])) typed"
    by presburger
  then obtain typed where
    t: "safeTomlSlice (Some [?m1, ?m2]) = Inr (Some typed)"
       "list_all2 retyped (elems (Some [?m1, ?m2])) typed"
    by blast
  from t(1) ev have "typed = [?t1, ?t2]" by simp
  with t(2) have 3: "list_all2 retyped [?m1, ?m2] [?t1, ?t2]"
    by (simp only: elems_Some)
  have "elems (Some [?m1, ?bad]) = ?m1 # [?bad] \<and> isMapAny ?m1"
    and nok: "\<not> list_all stringKeyedMap (elems (Some [?m1, ?bad]))"
    by (simp_all add: elems_Some isMapAny_def stringKeyedMap_def isString_def)
  with n [of "Some [?m1, ?bad]" ?m1 "[?bad]" zeroSettings exportedErrorRaw ?s]
  have 4: "\<exists>p. safeTomlSlice (Some [?m1, ?bad]) = Inl p"
    by presburger
  have "elems ?mixed = ?m1 # [AnyString ''x''] \<and> isMapAny ?m1"
    and nokm: "\<not> list_all stringKeyedMap (elems ?mixed)"
    by (simp_all add: elems_Some isMapAny_def stringKeyedMap_def isString_def)
  with n [of ?mixed ?m1 "[AnyString ''x'']" zeroSettings exportedErrorRaw ?s]
  have pm: "\<exists>p. safeTomlSlice ?mixed = Inl p"
    by presburger
  have "?w \<in> set (elems (ReviveSettings.Rules (withArguments ?mixed)))"
    "RuleSettings.Arguments ?w = ?mixed"
    by (simp_all add: withArguments_def elems_Some)
  with pm have "\<exists>s\<in>set (elems (ReviveSettings.Rules (withArguments ?mixed))).
                  \<exists>p. safeTomlSlice (RuleSettings.Arguments s) = Inl p"
    by metis
  with n [of None AnyNil "[]" "withArguments ?mixed" exportedErrorRaw ?s]
  have 5: "\<exists>p. createConfigMap (withArguments ?mixed) = Inl p"
    by blast
  have "?s \<in> set (elems (ReviveSettings.Rules exportedErrorSettings))"
    by (simp add: exportedErrorSettings_def elems_Some)
  with createConfigMap_exportedErrorSettings
  have "createConfigMap exportedErrorSettings = Inr exportedErrorRaw
        \<and> ?s \<in> set (elems (ReviveSettings.Rules exportedErrorSettings))"
    by (intro conjI)
  with n [of None AnyNil "[]" exportedErrorSettings exportedErrorRaw ?s]
  have "\<exists>tbl s' args. rawRoot.rule exportedErrorRaw = Some tbl
           \<and> s' \<in> set (elems (ReviveSettings.Rules exportedErrorSettings))
           \<and> RuleSettings.Name s' = RuleSettings.Name ?s
           \<and> safeTomlSlice (RuleSettings.Arguments s') = Inr args
           \<and> tbl (RuleSettings.Name ?s) =
               Some \<lparr>rawRule.severity = RuleSettings.Severity s', rawRule.arguments = args,
                      rawRule.disabled = RuleSettings.Disabled s'\<rparr>"
    by blast
  then obtain tbl s' args where
    u: "rawRoot.rule exportedErrorRaw = Some tbl"
       "s' \<in> set (elems (ReviveSettings.Rules exportedErrorSettings))"
       "safeTomlSlice (RuleSettings.Arguments s') = Inr args"
       "tbl (RuleSettings.Name ?s) =
               Some \<lparr>rawRule.severity = RuleSettings.Severity s', rawRule.arguments = args,
                      rawRule.disabled = RuleSettings.Disabled s'\<rparr>"
    by blast
  from u(2) have s': "s' = ?s"
    by (simp add: exportedErrorSettings_def elems_Some)
  with u(3) have "args = None"
    by (simp add: safeTomlSlice_nil)
  with u(4) s' have "tbl ''exported'' = Some \<lparr>rawRule.severity = ''error'', arguments = None, disabled = False\<rparr>"
    by simp
  with u(1) have 6: "\<exists>tbl. rawRoot.rule exportedErrorRaw = Some tbl
         \<and> tbl ''exported'' = Some \<lparr>rawRule.severity = ''error'', arguments = None, disabled = False\<rparr>"
    by blast
  from 1 2 ev 3 4 5 6 show ?thesis by (intro conjI)
qed

text \<open>
  The claim as the specification states it fails when the map is not the first element: the
  list holds a \<open>map[any]any\<close>, and it comes back as it is, not retyped.
\<close>

theorem later_map_counterexample:
  "isMapAny (AnyMapAny [(AnyString ''maxLitCount'', AnyString ''3'')])
   \<and> safeTomlSlice (Some [AnyString ''x'', AnyMapAny [(AnyString ''maxLitCount'', AnyString ''3'')]])
       = Inr (Some [AnyString ''x'', AnyMapAny [(AnyString ''maxLitCount'', AnyString ''3'')]])
   \<and> \<not> isMapString (AnyMapAny [(AnyString ''maxLitCount'', AnyString ''3'')])"
  by (simp add: isMapAny_def isMapString_def safeTomlSlice_def elems_Some)

end
